theory Spec2Isabelle
  imports Main "HOL-Library.Extended_Nat"
begin

section \<open>Errors (utils/errors)\<close>

text \<open>
  The error classes of \<^verbatim>\<open>utils/errors\<close>, each carrying its message:
  \<^verbatim>\<open>ValidationError\<close> (status 400), \<^verbatim>\<open>AuthenticationError\<close> (401),
  \<^verbatim>\<open>NotFoundError\<close> (404) and \<^verbatim>\<open>ConflictError\<close> (409). \<open>Error\<close> is the plain
  JavaScript \<^verbatim>\<open>Error\<close> that the services throw for everything they do not re-throw.
\<close>

datatype app_error =
    ValidationError string
  | AuthenticationError string
  | NotFoundError string
  | ConflictError string
  | Error string

section \<open>Configuration (config/index)\<close>

record config =
  jwtAccessSecret :: string
  jwtRefreshSecret :: string
  jwtAccessExpiresIn :: string
  jwtRefreshExpiresIn :: string

text \<open>The values \<^verbatim>\<open>config\<close> takes when the environment sets none of the four variables.\<close>

definition default_config :: config where
  "default_config =
     \<lparr> jwtAccessSecret = ''default-access-secret-change-in-production'',
       jwtRefreshSecret = ''default-refresh-secret-change-in-production'',
       jwtAccessExpiresIn = ''15m'',
       jwtRefreshExpiresIn = ''7d'' \<rparr>"

section \<open>Strings and numbers as JavaScript has them\<close>

text \<open>
  A string is the list of its UTF-16 code units; the model has the code units below 256,
  one per \<open>char\<close>, so \<open>length\<close> is \<^verbatim>\<open>.length\<close>. The character classes
  of the regular expressions in the sources are ASCII; \<^verbatim>\<open>toLowerCase()\<close> also
  lowers the capital letters of Latin-1, and \<^verbatim>\<open>trim()\<close> also strips the no-break
  space.
\<close>

definition isDigit :: "char \<Rightarrow> bool" where
  "isDigit c = (48 \<le> (of_char c :: nat) \<and> (of_char c :: nat) \<le> 57)"

definition isUpper :: "char \<Rightarrow> bool" where
  "isUpper c = (65 \<le> (of_char c :: nat) \<and> (of_char c :: nat) \<le> 90)"

definition isLower :: "char \<Rightarrow> bool" where
  "isLower c = (97 \<le> (of_char c :: nat) \<and> (of_char c :: nat) \<le> 122)"

definition isSpace :: "char \<Rightarrow> bool" where
  "isSpace c =
     ((of_char c :: nat) = 32 \<or> (9 \<le> (of_char c :: nat) \<and> (of_char c :: nat) \<le> 13) \<or>
      (of_char c :: nat) = 160)"

definition upperLetters :: string where
  "upperLetters =
     ''ABCDEFGHIJKLMNOPQRSTUVWXYZ'' @
     [CHR 0xC0, CHR 0xC1, CHR 0xC2, CHR 0xC3, CHR 0xC4, CHR 0xC5, CHR 0xC6, CHR 0xC7, CHR
      0xC8, CHR 0xC9, CHR 0xCA, CHR 0xCB, CHR 0xCC, CHR 0xCD, CHR 0xCE, CHR 0xCF, CHR
      0xD0, CHR 0xD1, CHR 0xD2, CHR 0xD3, CHR 0xD4, CHR 0xD5, CHR 0xD6, CHR 0xD8, CHR
      0xD9, CHR 0xDA, CHR 0xDB, CHR 0xDC, CHR 0xDD, CHR 0xDE]"

definition lowerLetters :: string where
  "lowerLetters =
     ''abcdefghijklmnopqrstuvwxyz'' @
     [CHR 0xE0, CHR 0xE1, CHR 0xE2, CHR 0xE3, CHR 0xE4, CHR 0xE5, CHR 0xE6, CHR 0xE7, CHR
      0xE8, CHR 0xE9, CHR 0xEA, CHR 0xEB, CHR 0xEC, CHR 0xED, CHR 0xEE, CHR 0xEF, CHR
      0xF0, CHR 0xF1, CHR 0xF2, CHR 0xF3, CHR 0xF4, CHR 0xF5, CHR 0xF6, CHR 0xF8, CHR
      0xF9, CHR 0xFA, CHR 0xFB, CHR 0xFC, CHR 0xFD, CHR 0xFE]"

definition lowerChar :: "char \<Rightarrow> char" where
  "lowerChar c =
     (case map_of (zip upperLetters lowerLetters) c of
        None \<Rightarrow> c
      | Some l \<Rightarrow> l)"

definition toLowerCase :: "string \<Rightarrow> string" where
  "toLowerCase s = map lowerChar s"

definition trim :: "string \<Rightarrow> string" where
  "trim s = rev (dropWhile isSpace (rev (dropWhile isSpace s)))"

text \<open>The value of a string of decimal digits, most significant digit first.\<close>

definition digitsValue :: "string \<Rightarrow> nat" where
  "digitsValue ds = foldl (\<lambda>acc c. acc * 10 + ((of_char c :: nat) - 48)) 0 ds"

text \<open>
  A JavaScript number is a double. The numbers of this code are natural numbers,
  \<^verbatim>\<open>Infinity\<close> (\<open>\<infinity>\<close>) and \<^verbatim>\<open>NaN\<close> (\<open>None\<close>). \<open>toNumber n\<close> is the
  double nearest to the natural number \<open>n\<close>: \<open>n\<close> itself below \<open>2^53\<close>; from
  there on \<open>n\<close> rounded to its 53 leading bits, ties to the even mantissa, and
  \<^verbatim>\<open>Infinity\<close> when that is \<open>2^1024\<close> or more. \<open>excess n\<close> counts the bits
  that are cut.
\<close>

fun excess :: "nat \<Rightarrow> nat" where
  "excess n = (if n < 9007199254740992 then 0 else Suc (excess (n div 2)))"

declare excess.simps [simp del]

definition roundToDouble :: "nat \<Rightarrow> nat" where
  "roundToDouble n =
     (let k = excess n; q = n div 2 ^ k; r = n mod 2 ^ k
      in if 2 * r < 2 ^ k \<or> (2 * r = 2 ^ k \<and> even q) then q * 2 ^ k else (q + 1) * 2 ^ k)"

definition toNumber :: "nat \<Rightarrow> enat" where
  "toNumber n =
     (if n < 9007199254740992 then enat n
      else if roundToDouble n < 2 ^ 1024 then enat (roundToDouble n)
      else \<infinity>)"

text \<open>
  \<^verbatim>\<open>parseInt(s)\<close> on a string that starts with neither white space, a sign nor
  \<^verbatim>\<open>0x\<close>: the number nearest to the value of the longest prefix of digits, and
  \<^verbatim>\<open>NaN\<close> when that prefix is empty. \<open>product n k\<close> is the product \<^verbatim>\<open>n * k\<close> of a
  number and a positive constant.
\<close>

definition parseInt :: "string \<Rightarrow> enat option" where
  "parseInt s =
     (let ds = takeWhile isDigit s
      in if ds = [] then None else Some (toNumber (digitsValue ds)))"

definition product :: "enat option \<Rightarrow> nat \<Rightarrow> enat option" where
  "product n k =
     (case n of
        None \<Rightarrow> None
      | Some \<infinity> \<Rightarrow> Some \<infinity>
      | Some (enat m) \<Rightarrow> Some (toNumber (m * k)))"

section \<open>What the libraries decide\<close>

text \<open>
  Two library functions are not determined by the sources, and their results differ
  between versions: how \<^verbatim>\<open>jsonwebtoken\<close> turns a lifetime string into the
  \<^verbatim>\<open>exp\<close> of a token issued at a given second (\<^verbatim>\<open>undefined\<close>, here \<open>None\<close>,
  for a string it does not read), and which strings mongoose casts to an
  \<^verbatim>\<open>ObjectId\<close>. They are parameters of the model; every theorem with a free \<open>l\<close>
  holds whatever the two functions are.
\<close>

record lib =
  timespan :: "string \<Rightarrow> nat \<Rightarrow> int option"
  castsToObjectId :: "string \<Rightarrow> bool"

section \<open>The jsonwebtoken library, symbolically\<close>

text \<open>
  \<^verbatim>\<open>jwt.sign\<close>, \<^verbatim>\<open>jwt.verify\<close> and \<^verbatim>\<open>jwt.decode\<close> are library calls. A compact
  token is modelled by what it determines: a string that parses as a JWT is \<open>Jwt p k\<close>, the
  payload \<open>p\<close> with an HMAC made under the secret \<open>k\<close>; any other string is
  \<open>Malformed s\<close>. The HS256 signature is a function of header, payload and secret and
  the library adds no nonce, so two tokens are the same string exactly when payload and
  secret agree.

  The payload is \<^verbatim>\<open>IJWTPayload\<close> plus the registered claims the library adds:
  \<^verbatim>\<open>iat\<close> and \<^verbatim>\<open>exp\<close>, both in whole seconds.
\<close>

record jwt_payload =
  jwt_userId :: string
  jwt_email :: string
  jwt_type :: string
  jwt_iat :: nat
  jwt_exp :: "int option"

datatype token = Jwt jwt_payload string | Malformed string

datatype jwt_error = TokenExpiredError | JsonWebTokenError string

text \<open>The library's clock: \<^verbatim>\<open>Math.floor(Date.now() / 1000)\<close>, from milliseconds.\<close>

definition clockTimestamp :: "nat \<Rightarrow> nat" where
  "clockTimestamp now = now div 1000"

text \<open>
  \<^verbatim>\<open>jwt.sign(payload, secret, {expiresIn})\<close> at the instant \<open>now\<close>. It throws
  (\<open>None\<close>) on an empty secret, on an empty lifetime and on a lifetime the library
  does not read; otherwise \<^verbatim>\<open>iat\<close> is the clock and \<^verbatim>\<open>exp\<close> is what the library
  makes of the lifetime at that second.
\<close>

definition jwt_sign :: "lib \<Rightarrow> nat \<Rightarrow> string \<Rightarrow> string \<Rightarrow> string \<Rightarrow> string \<Rightarrow> string \<Rightarrow> token option" where
  "jwt_sign l now uid em ty secret expiresIn =
     (if secret = [] \<or> expiresIn = [] then None
      else case timespan l expiresIn (clockTimestamp now) of
             None \<Rightarrow> None
           | Some e \<Rightarrow>
               Some (Jwt \<lparr> jwt_userId = uid, jwt_email = em, jwt_type = ty,
                           jwt_iat = clockTimestamp now, jwt_exp = Some e \<rparr> secret))"

text \<open>
  \<^verbatim>\<open>jwt.verify(token, secret)\<close> at the instant \<open>now\<close>: structure, then signature,
  then expiry, where the library rejects as soon as the clock has reached \<^verbatim>\<open>exp\<close>
  (\<^verbatim>\<open>clockTimestamp >= payload.exp\<close>).
\<close>

definition jwt_verify :: "nat \<Rightarrow> token \<Rightarrow> string \<Rightarrow> jwt_error + jwt_payload" where
  "jwt_verify now tok secret =
     (case tok of
        Malformed _ \<Rightarrow> Inl (JsonWebTokenError ''jwt malformed'')
      | Jwt p k \<Rightarrow>
          if secret = [] then Inl (JsonWebTokenError ''secret or public key must be provided'')
          else if k \<noteq> secret then Inl (JsonWebTokenError ''invalid signature'')
          else (case jwt_exp p of
                  None \<Rightarrow> Inr p
                | Some e \<Rightarrow>
                    if e \<le> int (clockTimestamp now) then Inl TokenExpiredError else Inr p))"

text \<open>\<^verbatim>\<open>jwt.decode(token)\<close>: the payload without any check, \<^verbatim>\<open>null\<close> when malformed.\<close>

definition jwt_decode :: "token \<Rightarrow> jwt_payload option" where
  "jwt_decode tok = (case tok of Malformed _ \<Rightarrow> None | Jwt p _ \<Rightarrow> Some p)"

section \<open>Token codec (utils/jwt.ts)\<close>

definition generateAccessToken :: "lib \<Rightarrow> config \<Rightarrow> nat \<Rightarrow> string \<Rightarrow> string \<Rightarrow> token option" where
  "generateAccessToken l cfg now uid em =
     jwt_sign l now uid em ''access'' (jwtAccessSecret cfg) (jwtAccessExpiresIn cfg)"

definition generateRefreshToken :: "lib \<Rightarrow> config \<Rightarrow> nat \<Rightarrow> string \<Rightarrow> string \<Rightarrow> token option" where
  "generateRefreshToken l cfg now uid em =
     jwt_sign l now uid em ''refresh'' (jwtRefreshSecret cfg) (jwtRefreshExpiresIn cfg)"

text \<open>
  \<^verbatim>\<open>ITokenResponse\<close>. \<open>expiresIn\<close> is a JavaScript number; \<^verbatim>\<open>NaN\<close> is what
  \<^verbatim>\<open>parseInt('') * 60\<close> gives.
\<close>

record token_response =
  accessToken :: token
  refreshToken :: token
  expiresIn :: "enat option"

text \<open>
  \<^verbatim>\<open>generateTokens\<close>: both tokens, then
  \<^verbatim>\<open>parseInt(config.jwtAccessExpiresIn.replace(/[^0-9]/g, '')) * 60\<close>, the product
  rounded to a number again. \<open>None\<close> when one of the two \<^verbatim>\<open>jwt.sign\<close> calls throws.
\<close>

definition generateTokens :: "lib \<Rightarrow> config \<Rightarrow> nat \<Rightarrow> string \<Rightarrow> string \<Rightarrow> token_response option" where
  "generateTokens l cfg now uid em =
     (case generateAccessToken l cfg now uid em of
        None \<Rightarrow> None
      | Some a \<Rightarrow>
          (case generateRefreshToken l cfg now uid em of
             None \<Rightarrow> None
           | Some r \<Rightarrow>
               Some \<lparr> accessToken = a, refreshToken = r,
                      expiresIn =
                        product (parseInt (filter isDigit (jwtAccessExpiresIn cfg))) 60 \<rparr>))"

text \<open>
  \<^verbatim>\<open>verifyAccessToken\<close> and \<^verbatim>\<open>verifyRefreshToken\<close>. The type check throws inside the
  \<^verbatim>\<open>try\<close>; its \<^verbatim>\<open>AuthenticationError\<close> is neither library error, so the
  \<^verbatim>\<open>catch\<close> re-throws it unchanged.
\<close>

definition verifyAccessToken :: "config \<Rightarrow> nat \<Rightarrow> token \<Rightarrow> app_error + jwt_payload" where
  "verifyAccessToken cfg now tok =
     (case jwt_verify now tok (jwtAccessSecret cfg) of
        Inl TokenExpiredError \<Rightarrow> Inl (AuthenticationError ''Access token expired'')
      | Inl (JsonWebTokenError _) \<Rightarrow> Inl (AuthenticationError ''Invalid access token'')
      | Inr decoded \<Rightarrow>
          if jwt_type decoded \<noteq> ''access'' then Inl (AuthenticationError ''Invalid token type'')
          else Inr decoded)"

definition verifyRefreshToken :: "config \<Rightarrow> nat \<Rightarrow> token \<Rightarrow> app_error + jwt_payload" where
  "verifyRefreshToken cfg now tok =
     (case jwt_verify now tok (jwtRefreshSecret cfg) of
        Inl TokenExpiredError \<Rightarrow> Inl (AuthenticationError ''Refresh token expired'')
      | Inl (JsonWebTokenError _) \<Rightarrow> Inl (AuthenticationError ''Invalid refresh token'')
      | Inr decoded \<Rightarrow>
          if jwt_type decoded \<noteq> ''refresh'' then Inl (AuthenticationError ''Invalid token type'')
          else Inr decoded)"

text \<open>
  \<^verbatim>\<open>isTokenExpired\<close>: \<^verbatim>\<open>!decoded || !decoded.exp\<close> is true for a missing payload, a
  missing \<^verbatim>\<open>exp\<close> and \<^verbatim>\<open>exp\<close> 0; otherwise \<^verbatim>\<open>decoded.exp < currentTime\<close>.
\<close>

definition isTokenExpired :: "nat \<Rightarrow> token \<Rightarrow> bool" where
  "isTokenExpired now tok =
     (case jwt_decode tok of
        None \<Rightarrow> True
      | Some decoded \<Rightarrow>
          (case jwt_exp decoded of
             None \<Rightarrow> True
           | Some e \<Rightarrow> if e = 0 then True else e < int (now div 1000)))"

section \<open>The User model (models/User)\<close>

text \<open>
  bcrypt is a library; its digests are symbolic, and no plain text is a digest. bcrypt
  reads its key cyclically from the UTF-8 bytes of the password followed by a zero byte
  and uses the first 72 bytes of that stream: \<open>bcryptKey\<close>. A digest is given by its
  salt and that key, and is 60 characters long whatever was hashed. The
  \<^verbatim>\<open>password\<close> path holds the plain text from the moment a service assigns it until
  the pre-save hook runs, and a digest afterwards: \<^verbatim>\<open>isModified('password')\<close> is the
  case \<open>Plaintext\<close>.
\<close>

definition utf8 :: "string \<Rightarrow> nat list" where
  "utf8 s =
     concat (map (\<lambda>c. if (of_char c :: nat) < 128 then [of_char c]
                       else [192 + of_char c div 64, 128 + of_char c mod 64]) s)"

definition bcryptKey :: "string \<Rightarrow> nat list" where
  "bcryptKey s =
     (let k = utf8 s @ [0] in take 72 (concat (replicate (72 div length k + 1) k)))"

datatype credential = Plaintext string | BcryptHash string "nat list"

record user_doc =
  uid :: string
  email :: string
  password :: credential
  firstName :: string
  lastName :: string
  isEmailVerified :: bool
  emailVerificationToken :: "string option"
  emailVerificationExpires :: "nat option"
  passwordResetToken :: "string option"
  passwordResetExpires :: "nat option"
  refreshTokens :: "token list"
  createdAt :: nat
  updatedAt :: nat

text \<open>The instance methods of the schema.\<close>

definition comparePassword :: "string \<Rightarrow> user_doc \<Rightarrow> bool" where
  "comparePassword candidatePassword u =
     (case password u of
        Plaintext _ \<Rightarrow> False
      | BcryptHash _ hashed \<Rightarrow> bcryptKey candidatePassword = hashed)"

definition addRefreshToken :: "token \<Rightarrow> user_doc \<Rightarrow> user_doc" where
  "addRefreshToken t u = u\<lparr>refreshTokens := refreshTokens u @ [t]\<rparr>"

definition removeRefreshToken :: "token \<Rightarrow> user_doc \<Rightarrow> user_doc" where
  "removeRefreshToken t u = u\<lparr>refreshTokens := filter (\<lambda>tok. tok \<noteq> t) (refreshTokens u)\<rparr>"

definition hasRefreshToken :: "token \<Rightarrow> user_doc \<Rightarrow> bool" where
  "hasRefreshToken t u = (t \<in> set (refreshTokens u))"

definition clearRefreshTokens :: "user_doc \<Rightarrow> user_doc" where
  "clearRefreshTokens u = u\<lparr>refreshTokens := []\<rparr>"

text \<open>
  The setters of the \<^verbatim>\<open>email\<close> path, \<^verbatim>\<open>lowercase\<close> and \<^verbatim>\<open>trim\<close>. Mongoose
  applies them to a value assigned to the path and to a value a query filter gives for
  the path: \<open>byEmail v\<close> is the filter \<^verbatim>\<open>{ email: v }\<close> as the query runs it.
\<close>

definition castEmail :: "string \<Rightarrow> string" where
  "castEmail v = trim (toLowerCase v)"

definition byEmail :: "string \<Rightarrow> user_doc \<Rightarrow> bool" where
  "byEmail v u = (email u = castEmail v)"

text \<open>
  The validators of the schema. The e-mail pattern is
  \<^verbatim>\<open>^[a-zA-Z0-9._%+-]+@[a-zA-Z0-9.-]+\.[a-zA-Z]{2,}$\<close>: the local part ends at the
  first \<^verbatim>\<open>@\<close>, and the top-level label starts after the last dot of what follows.
\<close>

definition isLetter :: "char \<Rightarrow> bool" where
  "isLetter c = (isUpper c \<or> isLower c)"

definition isLocalChar :: "char \<Rightarrow> bool" where
  "isLocalChar c = (isLetter c \<or> isDigit c \<or> c \<in> set ''._%+-'')"

definition isDomainChar :: "char \<Rightarrow> bool" where
  "isDomainChar c = (isLetter c \<or> isDigit c \<or> c \<in> set ''.-'')"

definition emailMatch :: "string \<Rightarrow> bool" where
  "emailMatch s =
     (let local = takeWhile (\<lambda>c. c \<noteq> CHR ''@'') s in
      case dropWhile (\<lambda>c. c \<noteq> CHR ''@'') s of
        [] \<Rightarrow> False
      | _ # host \<Rightarrow>
          (let tld = takeWhile (\<lambda>c. c \<noteq> CHR ''.'') (rev host) in
           case dropWhile (\<lambda>c. c \<noteq> CHR ''.'') (rev host) of
             [] \<Rightarrow> False
           | _ # domain \<Rightarrow>
               local \<noteq> [] \<and> list_all isLocalChar local \<and>
               domain \<noteq> [] \<and> list_all isDomainChar domain \<and>
               2 \<le> length tld \<and> list_all isLetter tld))"

definition passwordValid :: "credential \<Rightarrow> bool" where
  "passwordValid p = (case p of Plaintext s \<Rightarrow> s \<noteq> [] \<and> 8 \<le> length s | BcryptHash _ _ \<Rightarrow> True)"

definition schemaValid :: "user_doc \<Rightarrow> bool" where
  "schemaValid u =
     (email u \<noteq> [] \<and> emailMatch (email u) \<and>
      passwordValid (password u) \<and>
      firstName u \<noteq> [] \<and> length (firstName u) \<le> 50 \<and>
      lastName u \<noteq> [] \<and> length (lastName u) \<le> 50)"

text \<open>The pre-save hook: hash with a fresh salt when the password was modified.\<close>

definition preSave :: "string \<Rightarrow> user_doc \<Rightarrow> user_doc" where
  "preSave salt u =
     (case password u of
        Plaintext s \<Rightarrow> u\<lparr>password := BcryptHash salt (bcryptKey s)\<rparr>
      | BcryptHash _ _ \<Rightarrow> u)"

section \<open>The collection and what a call reads from outside\<close>

text \<open>
  The collection is the list of its documents in natural order; \<^verbatim>\<open>findOne\<close> returns
  the first match. \<open>env\<close> is what one service call reads from its surroundings: the
  clock in milliseconds (one instant for the whole call), the 32 random bytes in
  hexadecimal, the bcrypt salt, the identifier of a new document, and whether the mail
  transport delivers.
\<close>

type_synonym collection = "user_doc list"

record env =
  clock :: nat
  randomHex :: string
  genSalt :: string
  newObjectId :: string
  mailDelivers :: bool

definition findOne :: "(user_doc \<Rightarrow> bool) \<Rightarrow> collection \<Rightarrow> user_doc option" where
  "findOne q us = find q us"

text \<open>
  \<open>lookupId\<close> is the stored document with a given \<^verbatim>\<open>_id\<close>. \<^verbatim>\<open>findById\<close> first
  casts its argument to an \<^verbatim>\<open>ObjectId\<close> and rejects with a \<^verbatim>\<open>CastError\<close>
  (\<open>Inl\<close>) when the string is none.
\<close>

definition lookupId :: "string \<Rightarrow> collection \<Rightarrow> user_doc option" where
  "lookupId i us = findOne (\<lambda>u. uid u = i) us"

definition findById :: "lib \<Rightarrow> string \<Rightarrow> collection \<Rightarrow> string + user_doc option" where
  "findById l i us = (if castsToObjectId l i then Inr (lookupId i us) else Inl ''CastError'')"

text \<open>\<^verbatim>\<open>{ $gt: new Date() }\<close>: a stored date strictly after now; \<^verbatim>\<open>null\<close> never matches.\<close>

definition dateGt :: "nat option \<Rightarrow> nat \<Rightarrow> bool" where
  "dateGt d now = (case d of None \<Rightarrow> False | Some e \<Rightarrow> now < e)"

definition findByVerificationToken :: "nat \<Rightarrow> string \<Rightarrow> collection \<Rightarrow> user_doc option" where
  "findByVerificationToken now tok us =
     findOne (\<lambda>u. emailVerificationToken u = Some tok \<and> dateGt (emailVerificationExpires u) now) us"

definition findByPasswordResetToken :: "nat \<Rightarrow> string \<Rightarrow> collection \<Rightarrow> user_doc option" where
  "findByPasswordResetToken now tok us =
     findOne (\<lambda>u. passwordResetToken u = Some tok \<and> dateGt (passwordResetExpires u) now) us"

text \<open>
  \<^verbatim>\<open>save()\<close>: validation, then the pre-save hook, then the write; \<open>None\<close> is a
  rejected promise. Validation covers every path of the document. A new document is
  inserted unless \<^verbatim>\<open>_id\<close> or the unique \<^verbatim>\<open>email\<close> index already holds its key.
  For a loaded document the second argument says whether a path was modified, which
  mongoose decides at each assignment: a \<^verbatim>\<open>push\<close> always modifies, an assignment
  modifies when the value differs from the one the path holds. A modified document gets
  the clock as \<^verbatim>\<open>updatedAt\<close> and replaces the stored one with its \<^verbatim>\<open>_id\<close>, and
  the save rejects when there is none; an unmodified document is the stored one, and it
  stays as it is, \<^verbatim>\<open>updatedAt\<close> included.
\<close>

fun replaceById :: "user_doc \<Rightarrow> collection \<Rightarrow> collection" where
  "replaceById d [] = []"
| "replaceById d (v # vs) = (if uid v = uid d then d # vs else v # replaceById d vs)"

definition saveNew :: "env \<Rightarrow> user_doc \<Rightarrow> collection \<Rightarrow> (user_doc \<times> collection) option" where
  "saveNew env u us =
     (if \<not> schemaValid u then None
      else let d = (preSave (genSalt env) u)\<lparr>createdAt := clock env, updatedAt := clock env\<rparr>
           in if list_ex (\<lambda>v. uid v = uid d \<or> email v = email d) us then None
              else Some (d, us @ [d]))"

definition save :: "env \<Rightarrow> bool \<Rightarrow> user_doc \<Rightarrow> collection \<Rightarrow> (user_doc \<times> collection) option" where
  "save env modified u us =
     (if \<not> schemaValid u then None
      else let d = (if modified then (preSave (genSalt env) u)\<lparr>updatedAt := clock env\<rparr> else u)
           in if list_ex (\<lambda>v. uid v = uid d) us then Some (d, replaceById d us)
              else None)"

text \<open>
  Modelled from the spec: the functions \<^verbatim>\<open>sendVerificationEmail\<close> and
  \<^verbatim>\<open>sendPasswordResetEmail\<close> of \<^verbatim>\<open>utils/email\<close>, which the service imports, are
  not among the sources. The spec describes the notification sender as
  \<^verbatim>\<open>sendVerification(email, firstName, token)\<close> and
  \<^verbatim>\<open>sendPasswordReset(email, firstName, token)\<close>, both promises of nothing, whose
  failure the caller sees as a rejection. A call hands one message to the transport and
  rejects when the transport does not deliver; whether it delivers is read from the
  surroundings. \<open>outbox\<close> keeps every message handed over.
\<close>

datatype mail =
    VerificationEmail string string string
  | PasswordResetEmail string string string

record world =
  users :: collection
  outbox :: "mail list"

definition sendMail :: "env \<Rightarrow> mail \<Rightarrow> world \<Rightarrow> (string + unit) \<times> world" where
  "sendMail env m w =
     (if mailDelivers env then Inr () else Inl ''send failed'', w\<lparr>outbox := outbox w @ [m]\<rparr>)"

definition sendVerificationEmail ::
    "env \<Rightarrow> string \<Rightarrow> string \<Rightarrow> string \<Rightarrow> world \<Rightarrow> (string + unit) \<times> world" where
  "sendVerificationEmail env em fn tok w = sendMail env (VerificationEmail em fn tok) w"

definition sendPasswordResetEmail ::
    "env \<Rightarrow> string \<Rightarrow> string \<Rightarrow> string \<Rightarrow> world \<Rightarrow> (string + unit) \<times> world" where
  "sendPasswordResetEmail env em fn tok w = sendMail env (PasswordResetEmail em fn tok) w"

section \<open>AuthService (services/AuthService)\<close>

text \<open>
  Each static method takes the surroundings and the world and returns what the
  promise settles to, \<open>Inl\<close> for a rejection, together with the world it leaves. The
  outer \<^verbatim>\<open>catch\<close> of a method re-throws the listed error classes and turns every
  other failure into the method's plain \<^verbatim>\<open>Error\<close>. Where a method only assigns
  paths of the loaded document, \<open>assigned\<close> is the document after the assignments, and
  it is modified when it differs from the loaded one.
\<close>

record registration =
  reg_email :: string
  reg_password :: string
  reg_firstName :: string
  reg_lastName :: string

record user_response =
  res_id :: string
  res_email :: string
  res_firstName :: string
  res_lastName :: string
  res_isEmailVerified :: bool
  res_createdAt :: nat

definition toResponse :: "user_doc \<Rightarrow> user_response" where
  "toResponse u =
     \<lparr> res_id = uid u, res_email = email u, res_firstName = firstName u,
       res_lastName = lastName u, res_isEmailVerified = isEmailVerified u,
       res_createdAt = createdAt u \<rparr>"

text \<open>
  \<^verbatim>\<open>new User({...userData, emailVerificationToken, emailVerificationExpires})\<close>: the
  setters lower-case and trim the e-mail and trim the names; every other path takes
  its schema default.
\<close>

definition newUser :: "env \<Rightarrow> registration \<Rightarrow> user_doc" where
  "newUser env userData =
     \<lparr> uid = newObjectId env,
       email = castEmail (reg_email userData),
       password = Plaintext (reg_password userData),
       firstName = trim (reg_firstName userData),
       lastName = trim (reg_lastName userData),
       isEmailVerified = False,
       emailVerificationToken = Some (randomHex env),
       emailVerificationExpires = Some (clock env + 24 * 60 * 60 * 1000),
       passwordResetToken = None,
       passwordResetExpires = None,
       refreshTokens = [],
       createdAt = clock env,
       updatedAt = clock env \<rparr>"

definition registerUser :: "env \<Rightarrow> registration \<Rightarrow> world \<Rightarrow> (app_error + user_response) \<times> world" where
  "registerUser env userData w =
     (case findOne (byEmail (toLowerCase (reg_email userData))) (users w) of
        Some existingUser \<Rightarrow> (Inl (ConflictError ''User with this email already exists''), w)
      | None \<Rightarrow>
          (case saveNew env (newUser env userData) (users w) of
             None \<Rightarrow> (Inl (Error ''Failed to register user''), w)
           | Some (user, us) \<Rightarrow>
               (case sendVerificationEmail env (email user) (firstName user) (randomHex env)
                       (w\<lparr>users := us\<rparr>) of
                  (Inl emailError, w') \<Rightarrow> (Inr (toResponse user), w')
                | (Inr _, w') \<Rightarrow> (Inr (toResponse user), w'))))"

definition loginUser ::
    "lib \<Rightarrow> config \<Rightarrow> env \<Rightarrow> string \<Rightarrow> string \<Rightarrow> world \<Rightarrow>
       (app_error + user_response \<times> token_response) \<times> world" where
  "loginUser l cfg env loginEmail loginPassword w =
     (case findOne (byEmail (toLowerCase loginEmail)) (users w) of
        None \<Rightarrow> (Inl (AuthenticationError ''Invalid email or password''), w)
      | Some user \<Rightarrow>
          if \<not> comparePassword loginPassword user
          then (Inl (AuthenticationError ''Invalid email or password''), w)
          else (case generateTokens l cfg (clock env) (uid user) (email user) of
                  None \<Rightarrow> (Inl (Error ''Failed to login user''), w)
                | Some tokens \<Rightarrow>
                    (case save env True (addRefreshToken (refreshToken tokens) user) (users w) of
                       None \<Rightarrow> (Inl (Error ''Failed to login user''), w)
                     | Some (saved, us) \<Rightarrow> (Inr (toResponse saved, tokens), w\<lparr>users := us\<rparr>))))"

definition verifyEmail :: "env \<Rightarrow> string \<Rightarrow> world \<Rightarrow> (app_error + user_response) \<times> world" where
  "verifyEmail env tok w =
     (case findByVerificationToken (clock env) tok (users w) of
        None \<Rightarrow> (Inl (ValidationError ''Invalid or expired verification token''), w)
      | Some user \<Rightarrow>
          (let assigned = user\<lparr>isEmailVerified := True, emailVerificationToken := None,
                               emailVerificationExpires := None\<rparr>
           in case save env (assigned \<noteq> user) assigned (users w) of
                None \<Rightarrow> (Inl (Error ''Failed to verify email''), w)
              | Some (saved, us) \<Rightarrow> (Inr (toResponse saved), w\<lparr>users := us\<rparr>)))"

definition resendVerificationEmail :: "env \<Rightarrow> string \<Rightarrow> world \<Rightarrow> (app_error + unit) \<times> world" where
  "resendVerificationEmail env em w =
     (case findOne (byEmail (toLowerCase em)) (users w) of
        None \<Rightarrow> (Inl (NotFoundError ''User not found''), w)
      | Some user \<Rightarrow>
          if isEmailVerified user then (Inl (ValidationError ''Email is already verified''), w)
          else (let assigned =
                      user\<lparr>emailVerificationToken := Some (randomHex env),
                           emailVerificationExpires := Some (clock env + 24 * 60 * 60 * 1000)\<rparr>
                in case save env (assigned \<noteq> user) assigned (users w) of
                     None \<Rightarrow> (Inl (Error ''Failed to resend verification email''), w)
                   | Some (saved, us) \<Rightarrow>
                       (case sendVerificationEmail env (email saved) (firstName saved)
                               (randomHex env) (w\<lparr>users := us\<rparr>) of
                          (Inl emailError, w') \<Rightarrow>
                            (Inl (Error ''Failed to resend verification email''), w')
                        | (Inr _, w') \<Rightarrow> (Inr (), w'))))"

definition refreshToken_op ::
    "lib \<Rightarrow> config \<Rightarrow> env \<Rightarrow> token \<Rightarrow> world \<Rightarrow> (app_error + token_response) \<times> world" where
  "refreshToken_op l cfg env presented w =
     (case verifyRefreshToken cfg (clock env) presented of
        Inl e \<Rightarrow> (Inl e, w)
      | Inr decoded \<Rightarrow>
          (case findById l (jwt_userId decoded) (users w) of
             Inl castError \<Rightarrow> (Inl (Error ''Failed to refresh token''), w)
           | Inr None \<Rightarrow> (Inl (AuthenticationError ''User not found''), w)
           | Inr (Some user) \<Rightarrow>
               if \<not> hasRefreshToken presented user
               then (Inl (AuthenticationError ''Invalid refresh token''), w)
               else (case generateTokens l cfg (clock env) (uid user) (email user) of
                       None \<Rightarrow> (Inl (Error ''Failed to refresh token''), w)
                     | Some newTokens \<Rightarrow>
                         (case save env True
                                 (addRefreshToken (refreshToken newTokens)
                                    (removeRefreshToken presented user)) (users w) of
                            None \<Rightarrow> (Inl (Error ''Failed to refresh token''), w)
                          | Some (saved, us) \<Rightarrow> (Inr newTokens, w\<lparr>users := us\<rparr>)))))"

definition logout :: "lib \<Rightarrow> env \<Rightarrow> string \<Rightarrow> token \<Rightarrow> world \<Rightarrow> (app_error + unit) \<times> world" where
  "logout l env userId presented w =
     (case findById l userId (users w) of
        Inl castError \<Rightarrow> (Inl (Error ''Failed to logout''), w)
      | Inr None \<Rightarrow> (Inl (NotFoundError ''User not found''), w)
      | Inr (Some user) \<Rightarrow>
          (let assigned = removeRefreshToken presented user
           in case save env (assigned \<noteq> user) assigned (users w) of
                None \<Rightarrow> (Inl (Error ''Failed to logout''), w)
              | Some (saved, us) \<Rightarrow> (Inr (), w\<lparr>users := us\<rparr>)))"

definition logoutAllDevices :: "lib \<Rightarrow> env \<Rightarrow> string \<Rightarrow> world \<Rightarrow> (app_error + unit) \<times> world" where
  "logoutAllDevices l env userId w =
     (case findById l userId (users w) of
        Inl castError \<Rightarrow> (Inl (Error ''Failed to logout from all devices''), w)
      | Inr None \<Rightarrow> (Inl (NotFoundError ''User not found''), w)
      | Inr (Some user) \<Rightarrow>
          (let assigned = clearRefreshTokens user
           in case save env (assigned \<noteq> user) assigned (users w) of
                None \<Rightarrow> (Inl (Error ''Failed to logout from all devices''), w)
              | Some (saved, us) \<Rightarrow> (Inr (), w\<lparr>users := us\<rparr>)))"

definition getUserProfile :: "lib \<Rightarrow> string \<Rightarrow> world \<Rightarrow> (app_error + user_response) \<times> world" where
  "getUserProfile l userId w =
     (case findById l userId (users w) of
        Inl castError \<Rightarrow> (Inl (Error ''Failed to get user profile''), w)
      | Inr None \<Rightarrow> (Inl (NotFoundError ''User not found''), w)
      | Inr (Some user) \<Rightarrow> (Inr (toResponse user), w))"

definition requestPasswordReset :: "env \<Rightarrow> string \<Rightarrow> world \<Rightarrow> (app_error + unit) \<times> world" where
  "requestPasswordReset env em w =
     (case findOne (byEmail (toLowerCase em)) (users w) of
        None \<Rightarrow> (Inr (), w)
      | Some user \<Rightarrow>
          (let assigned = user\<lparr>passwordResetToken := Some (randomHex env),
                               passwordResetExpires := Some (clock env + 60 * 60 * 1000)\<rparr>
           in case save env (assigned \<noteq> user) assigned (users w) of
                None \<Rightarrow> (Inl (Error ''Failed to request password reset''), w)
              | Some (saved, us) \<Rightarrow>
                  (case sendPasswordResetEmail env (email saved) (firstName saved)
                          (randomHex env) (w\<lparr>users := us\<rparr>) of
                     (Inl emailError, w') \<Rightarrow>
                       (Inl (Error ''Failed to request password reset''), w')
                   | (Inr _, w') \<Rightarrow> (Inr (), w'))))"

definition resetPassword :: "env \<Rightarrow> string \<Rightarrow> string \<Rightarrow> world \<Rightarrow> (app_error + user_response) \<times> world" where
  "resetPassword env tok newPassword w =
     (case findByPasswordResetToken (clock env) tok (users w) of
        None \<Rightarrow> (Inl (ValidationError ''Invalid or expired reset token''), w)
      | Some user \<Rightarrow>
          (let assigned = clearRefreshTokens
                            (user\<lparr>password := Plaintext newPassword, passwordResetToken := None,
                                  passwordResetExpires := None\<rparr>)
           in case save env (assigned \<noteq> user) assigned (users w) of
                None \<Rightarrow> (Inl (Error ''Failed to reset password''), w)
              | Some (saved, us) \<Rightarrow> (Inr (toResponse saved), w\<lparr>users := us\<rparr>)))"

section \<open>Histories of calls\<close>

text \<open>
  A history is a list of calls, each with the surroundings it ran in; \<open>step\<close> keeps
  the world a call leaves, whether its promise resolved or rejected.
\<close>

datatype op =
    Register registration
  | VerifyEmail string
  | ResendVerification string
  | Login string string
  | Refresh token
  | Logout string token
  | LogoutAll string
  | GetProfile string
  | RequestPasswordReset string
  | ResetPassword string string

fun step :: "lib \<Rightarrow> config \<Rightarrow> env \<Rightarrow> op \<Rightarrow> world \<Rightarrow> world" where
  "step l cfg env (Register userData) w = snd (registerUser env userData w)"
| "step l cfg env (VerifyEmail tok) w = snd (verifyEmail env tok w)"
| "step l cfg env (ResendVerification em) w = snd (resendVerificationEmail env em w)"
| "step l cfg env (Login em pw) w = snd (loginUser l cfg env em pw w)"
| "step l cfg env (Refresh t) w = snd (refreshToken_op l cfg env t w)"
| "step l cfg env (Logout userId t) w = snd (logout l env userId t w)"
| "step l cfg env (LogoutAll userId) w = snd (logoutAllDevices l env userId w)"
| "step l cfg env (GetProfile userId) w = snd (getUserProfile l userId w)"
| "step l cfg env (RequestPasswordReset em) w = snd (requestPasswordReset env em w)"
| "step l cfg env (ResetPassword tok newPassword) w = snd (resetPassword env tok newPassword w)"

fun run :: "lib \<Rightarrow> config \<Rightarrow> (env \<times> op) list \<Rightarrow> world \<Rightarrow> world" where
  "run l cfg [] w = w"
| "run l cfg ((env, c) # cs) w = run l cfg cs (step l cfg env c w)"

text \<open>Whether the collection holds a verified document with the given identifier.\<close>

definition verified :: "collection \<Rightarrow> string \<Rightarrow> bool" where
  "verified us i = list_ex (\<lambda>u. uid u = i \<and> isEmailVerified u) us"

text \<open>The one call that sets \<^verbatim>\<open>isEmailVerified\<close>.\<close>

fun isVerifyEmail :: "op \<Rightarrow> bool" where
  "isVerifyEmail (VerifyEmail _) = True"
| "isVerifyEmail _ = False"

text \<open>
  The ways a call changes the collection: not at all, by writing back a loaded document
  with its verified flag as it was, by writing one back verified (allowed when the first
  argument is \<open>True\<close>), or by inserting an unverified document under a new
  identifier.
\<close>

inductive evolves :: "bool \<Rightarrow> collection \<Rightarrow> collection \<Rightarrow> bool" where
  same: "evolves b us us"
| update: "u \<in> set us \<Longrightarrow> uid d = uid u \<Longrightarrow> isEmailVerified d = isEmailVerified u \<Longrightarrow>
     evolves b us (replaceById d us)"
| verify: "u \<in> set us \<Longrightarrow> uid d = uid u \<Longrightarrow> isEmailVerified d \<Longrightarrow>
     evolves True us (replaceById d us)"
| insert: "\<not> isEmailVerified d \<Longrightarrow> uid d \<notin> uid ` set us \<Longrightarrow> evolves b us (us @ [d])"

section \<open>The libraries in the examples\<close>

text \<open>
  The \<^verbatim>\<open>ms\<close> package (2.1), which \<^verbatim>\<open>jsonwebtoken\<close> applies to a string lifetime:
  an optional minus sign, a decimal count with an optional fraction, optional blanks and
  an optional unit (none means milliseconds), letter case ignored, at most 100
  characters. \<open>ms_count\<close> reads the count as sign, digits without the point, and
  number of decimals; \<open>ms\<close> gives the milliseconds as a fraction, numerator and
  denominator. The package computes in doubles; here the arithmetic is exact.
\<close>

definition ms_unit :: "string \<Rightarrow> nat option" where
  "ms_unit u =
     (if u \<in> set ['''', ''milliseconds'', ''millisecond'', ''msecs'', ''msec'', ''ms''] then Some 1
      else if u \<in> set [''seconds'', ''second'', ''secs'', ''sec'', ''s''] then Some 1000
      else if u \<in> set [''minutes'', ''minute'', ''mins'', ''min'', ''m''] then Some 60000
      else if u \<in> set [''hours'', ''hour'', ''hrs'', ''hr'', ''h''] then Some 3600000
      else if u \<in> set [''days'', ''day'', ''d''] then Some 86400000
      else if u \<in> set [''weeks'', ''week'', ''w''] then Some 604800000
      else if u \<in> set [''years'', ''year'', ''yrs'', ''yr'', ''y''] then Some 31557600000
      else None)"

definition ms_count :: "string \<Rightarrow> (bool \<times> nat \<times> nat) option" where
  "ms_count s =
     (let neg = (take 1 s = ''-'');
          body = (if neg then drop 1 s else s);
          whole = takeWhile isDigit body
      in case dropWhile isDigit body of
           [] \<Rightarrow> if whole = [] then None else Some (neg, digitsValue whole, 0)
         | c # fraction \<Rightarrow>
             if c = CHR ''.'' \<and> fraction \<noteq> [] \<and> list_all isDigit fraction
             then Some (neg, digitsValue (whole @ fraction), length fraction)
             else None)"

definition isCountChar :: "char \<Rightarrow> bool" where
  "isCountChar c = (isDigit c \<or> c = CHR ''-'' \<or> c = CHR ''.'')"

definition ms :: "string \<Rightarrow> (int \<times> nat) option" where
  "ms str =
     (if 100 < length str then None
      else case ms_count (takeWhile isCountChar str) of
             None \<Rightarrow> None
           | Some (neg, digits, decimals) \<Rightarrow>
               (case ms_unit (toLowerCase (dropWhile (\<lambda>c. c = CHR '' '')
                                            (dropWhile isCountChar str))) of
                  None \<Rightarrow> None
                | Some factor \<Rightarrow>
                    Some ((if neg then - int (digits * factor) else int (digits * factor)),
                          10 ^ decimals)))"

text \<open>
  \<^verbatim>\<open>timespan(expiresIn, iat)\<close> of \<^verbatim>\<open>jsonwebtoken\<close> for a string:
  \<^verbatim>\<open>Math.floor(iat + ms(expiresIn) / 1000)\<close>.
\<close>

definition timespan_ms :: "string \<Rightarrow> nat \<Rightarrow> int option" where
  "timespan_ms lifetime iat =
     (case ms lifetime of
        None \<Rightarrow> None
      | Some (num, den) \<Rightarrow> Some (int iat + num div (int den * 1000)))"

text \<open>An \<^verbatim>\<open>ObjectId\<close> from a string, as the current driver reads it: 24 hexadecimal digits.\<close>

definition isHexDigit :: "char \<Rightarrow> bool" where
  "isHexDigit c = (isDigit c \<or> c \<in> set ''abcdefABCDEF'')"

definition isObjectIdString :: "string \<Rightarrow> bool" where
  "isObjectIdString s = (length s = 24 \<and> list_all isHexDigit s)"

definition node_lib :: lib where
  "node_lib = \<lparr> timespan = timespan_ms, castsToObjectId = isObjectIdString \<rparr>"

section \<open>Example data\<close>

text \<open>
  A registered user, the surroundings of a call at a given instant, the tokens a login
  of that user at 1000000 ms yields under the default configuration, and a registration.
\<close>

definition bob :: user_doc where
  "bob =
     \<lparr> uid = ''65f1c0ffee0123456789abcd'',
       email = ''bob@example.com'',
       password = BcryptHash ''salt0'' (bcryptKey ''Secret123!''),
       firstName = ''Bob'',
       lastName = ''Example'',
       isEmailVerified = False,
       emailVerificationToken = None,
       emailVerificationExpires = None,
       passwordResetToken = None,
       passwordResetExpires = None,
       refreshTokens = [],
       createdAt = 0,
       updatedAt = 0 \<rparr>"

definition env_at :: "nat \<Rightarrow> env" where
  "env_at n =
     \<lparr> clock = n, randomHex = ''9f86d081884c7d65'', genSalt = ''salt1'',
       newObjectId = ''65f1c0ffee0123456789abce'', mailDelivers = True \<rparr>"

definition bob_refresh :: token where
  "bob_refresh =
     Jwt \<lparr> jwt_userId = ''65f1c0ffee0123456789abcd'', jwt_email = ''bob@example.com'',
           jwt_type = ''refresh'', jwt_iat = 1000, jwt_exp = Some 605800 \<rparr>
         ''default-refresh-secret-change-in-production''"

definition bob_access :: token where
  "bob_access =
     Jwt \<lparr> jwt_userId = ''65f1c0ffee0123456789abcd'', jwt_email = ''bob@example.com'',
           jwt_type = ''access'', jwt_iat = 1000, jwt_exp = Some 1900 \<rparr>
         ''default-access-secret-change-in-production''"

definition bob_logged_in :: "nat \<Rightarrow> user_doc" where
  "bob_logged_in n = bob\<lparr>refreshTokens := [bob_refresh], updatedAt := n\<rparr>"

definition bob_resetting :: user_doc where
  "bob_resetting =
     bob\<lparr>passwordResetToken := Some ''5e884898da280471'',
         passwordResetExpires := Some 4600000,
         refreshTokens := [bob_refresh, Malformed ''stale'']\<rparr>"

definition alice_data :: registration where
  "alice_data =
     \<lparr> reg_email = ''Alice@Example.com'', reg_password = ''Passw0rd!'',
       reg_firstName = ''Alice'', reg_lastName = ''Example'' \<rparr>"

section \<open>Unfolding rules for concrete runs\<close>

lemmas str_defs = isDigit_def isUpper_def isLower_def isSpace_def upperLetters_def
  lowerLetters_def lowerChar_def toLowerCase_def trim_def digitsValue_def toNumber_def
  parseInt_def product_def numeral_eq_enat
lemmas lib_defs = ms_unit_def ms_count_def isCountChar_def ms_def timespan_ms_def
  isHexDigit_def isObjectIdString_def node_lib_def
lemmas jwt_defs = clockTimestamp_def jwt_sign_def jwt_verify_def jwt_decode_def
lemmas codec_defs = generateAccessToken_def generateRefreshToken_def generateTokens_def
  verifyAccessToken_def verifyRefreshToken_def isTokenExpired_def
lemmas model_defs = comparePassword_def addRefreshToken_def removeRefreshToken_def
  hasRefreshToken_def clearRefreshTokens_def castEmail_def byEmail_def isLetter_def
  isLocalChar_def isDomainChar_def emailMatch_def passwordValid_def schemaValid_def
  preSave_def
lemmas store_defs = findOne_def lookupId_def findById_def dateGt_def
  findByVerificationToken_def findByPasswordResetToken_def saveNew_def save_def
  sendMail_def sendVerificationEmail_def sendPasswordResetEmail_def Let_def
lemmas fixture_defs = bob_def env_at_def bob_refresh_def bob_access_def default_config_def
lemmas eval_defs = fixture_defs model_defs str_defs lib_defs jwt_defs codec_defs store_defs
  toResponse_def
lemmas evalx = eval_defs bob_logged_in_def bob_resetting_def alice_data_def

section \<open>Facts about numbers, keys and the collection\<close>

lemma toNumber_small: "n < 9007199254740992 \<Longrightarrow> toNumber n = enat n"
  by (simp add: toNumber_def)

lemma roundToDouble_examples:
  "roundToDouble 9007199254740993 = 9007199254740992"
  "roundToDouble 9007199254740995 = 9007199254740996"
  by (simp_all add: roundToDouble_def excess.simps)

text \<open>Of a password whose bytes fill the key, nothing after the 72nd byte is hashed.\<close>

lemma bcryptKey_first_72_bytes:
  assumes "72 \<le> length (utf8 s)"
  shows "bcryptKey (s @ t) = take 72 (utf8 s)"
proof -
  have u: "utf8 (s @ t) = utf8 s @ utf8 t" by (simp add: utf8_def)
  obtain m where m: "72 div length (utf8 (s @ t) @ [0]) + 1 = Suc m" by simp
  show ?thesis
    unfolding bcryptKey_def Let_def m using assms by (simp add: u)
qed

lemma findOne_SomeD: "findOne q us = Some u \<Longrightarrow> u \<in> set us \<and> q u"
  by (auto simp: findOne_def find_Some_iff)

lemma lookupId_replaceById:
  "list_ex (\<lambda>v. uid v = uid d) us \<Longrightarrow> lookupId (uid d) (replaceById d us) = Some d"
  by (induction us) (auto simp: lookupId_def findOne_def)

lemma preSave_fields:
  "uid (preSave s u) = uid u" "email (preSave s u) = email u"
  "firstName (preSave s u) = firstName u" "lastName (preSave s u) = lastName u"
  "isEmailVerified (preSave s u) = isEmailVerified u"
  "emailVerificationToken (preSave s u) = emailVerificationToken u"
  "emailVerificationExpires (preSave s u) = emailVerificationExpires u"
  "passwordResetToken (preSave s u) = passwordResetToken u"
  "passwordResetExpires (preSave s u) = passwordResetExpires u"
  "refreshTokens (preSave s u) = refreshTokens u"
  "createdAt (preSave s u) = createdAt u"
  by (simp_all add: preSave_def split: credential.splits)

text \<open>What a successful save of a loaded document returns and leaves.\<close>

lemma save_SomeD:
  assumes "save env modified u us = Some (d, us')"
  shows "us' = replaceById d us" "uid d = uid u" "email d = email u"
    "firstName d = firstName u" "isEmailVerified d = isEmailVerified u"
    "passwordResetToken d = passwordResetToken u"
    "passwordResetExpires d = passwordResetExpires u"
    "refreshTokens d = refreshTokens u"
  using assms by (auto simp: save_def Let_def preSave_fields split: if_splits)

lemma save_loaded:
  assumes "u0 \<in> set us" and "uid u = uid u0" and "schemaValid u"
  shows "save env modified u us =
           Some ((if modified then (preSave (genSalt env) u)\<lparr>updatedAt := clock env\<rparr> else u),
                 replaceById
                   (if modified then (preSave (genSalt env) u)\<lparr>updatedAt := clock env\<rparr> else u) us)"
proof -
  have "uid (if modified then (preSave (genSalt env) u)\<lparr>updatedAt := clock env\<rparr> else u) = uid u"
    by (simp add: preSave_fields)
  with assms(1,2)
  have "list_ex (\<lambda>v. uid v =
          uid (if modified then (preSave (genSalt env) u)\<lparr>updatedAt := clock env\<rparr> else u)) us"
    by (auto simp: list_ex_iff)
  with assms(3) show ?thesis by (simp add: save_def Let_def)
qed

text \<open>
  Where identifiers are distinct, as in a collection they are, the save of an unmodified
  document leaves the collection as it is.
\<close>

lemma replaceById_same:
  "distinct (map uid us) \<Longrightarrow> u \<in> set us \<Longrightarrow> replaceById u us = us"
  by (induction us) (auto simp: image_iff)

lemma save_unmodified:
  assumes "distinct (map uid us)" and "u \<in> set us" and "schemaValid u"
  shows "save env False u us = Some (u, us)"
  using save_loaded [OF assms(2) refl assms(3), of env False] replaceById_same [OF assms(1,2)]
  by simp

text \<open>
  The libraries of the examples: lifetimes with a fraction, a sign or no unit, and one
  the package does not read; a string that is no \<^verbatim>\<open>ObjectId\<close>.
\<close>

lemma timespan_ms_examples:
  "timespan_ms ''15m'' 1000 = Some 1900"
  "timespan_ms ''1.5h'' 1000 = Some 6400"
  "timespan_ms ''.5 Hours'' 1000 = Some 2800"
  "timespan_ms ''-1h'' 1000 = Some (- 2600)"
  "timespan_ms ''900'' 1000 = Some 1000"
  "timespan_ms ''1.'' 1000 = None"
  "timespan_ms ''soon'' 1000 = None"
  by (simp_all add: str_defs lib_defs Let_def)

lemma isObjectIdString_examples:
  "isObjectIdString ''65f1c0ffee0123456789abcd''"
  "\<not> isObjectIdString ''me''"
  by (simp_all add: str_defs lib_defs)

text \<open>
  A profile asked for under an identifier that is no \<^verbatim>\<open>ObjectId\<close> fails with the
  plain error of the method; a logout with a token that is not stored modifies nothing,
  and the document keeps its \<^verbatim>\<open>updatedAt\<close>.
\<close>

lemma getUserProfile_cast_error:
  "getUserProfile node_lib ''me'' w = (Inl (Error ''Failed to get user profile''), w)"
  by (simp add: getUserProfile_def findById_def str_defs lib_defs)

lemma logout_unknown_token_writes_nothing:
  "logout node_lib (env_at 2000000) ''65f1c0ffee0123456789abcd'' (Malformed ''stale'')
       \<lparr>users = [bob_logged_in 1000000], outbox = []\<rparr> =
     (Inr (), \<lparr>users = [bob_logged_in 1000000], outbox = []\<rparr>)"
  by (simp add: logout_def evalx)

text \<open>
  Every document a call writes has passed validation, so a collection of valid documents
  stays one: validity of the stored documents is an invariant of the service.
\<close>

lemma schemaValid_preSave:
  "schemaValid u \<Longrightarrow> schemaValid ((preSave s u)\<lparr>createdAt := a, updatedAt := b\<rparr>)"
  by (simp add: schemaValid_def preSave_fields)
     (simp add: preSave_def passwordValid_def split: credential.splits)

lemma schemaValid_preSave_updated:
  "schemaValid u \<Longrightarrow> schemaValid ((preSave s u)\<lparr>updatedAt := b\<rparr>)"
  by (simp add: schemaValid_def preSave_fields)
     (simp add: preSave_def passwordValid_def split: credential.splits)

lemma list_all_replaceById: "P d \<Longrightarrow> list_all P us \<Longrightarrow> list_all P (replaceById d us)"
  by (induction us) auto

lemma save_keeps_valid:
  "save env modified u' us = Some (d, us') \<Longrightarrow> list_all schemaValid us \<Longrightarrow>
     list_all schemaValid us'"
  by (auto simp: save_def Let_def split: if_splits
           intro!: list_all_replaceById schemaValid_preSave_updated)

lemma saveNew_keeps_valid:
  "saveNew env u' us = Some (d, us') \<Longrightarrow> list_all schemaValid us \<Longrightarrow> list_all schemaValid us'"
  by (auto simp: saveNew_def Let_def split: if_splits intro!: schemaValid_preSave)

lemma step_keeps_schemaValid:
  "list_all schemaValid (users w) \<Longrightarrow> list_all schemaValid (users (step l cfg env c w))"
  by (cases c)
     (auto simp: registerUser_def verifyEmail_def resendVerificationEmail_def loginUser_def
        refreshToken_op_def logout_def logoutAllDevices_def getUserProfile_def
        requestPasswordReset_def resetPassword_def Let_def
        sendVerificationEmail_def sendPasswordResetEmail_def sendMail_def
        split: option.splits sum.splits prod.splits if_splits
        dest: save_keeps_valid saveNew_keeps_valid)

section \<open>Refresh-token rotation\<close>

text \<open>
  \<^verbatim>\<open>refreshToken\<close> removes the presented token and pushes the new one. The new token
  is a function of the user, the configuration and the whole second of the clock, so
  within one second \<^verbatim>\<open>generateRefreshToken\<close> returns the same string again.
\<close>

lemma same_second_same_token:
  "generateRefreshToken l cfg now userId em = Some t \<Longrightarrow>
     clockTimestamp now' = clockTimestamp now \<Longrightarrow>
     generateRefreshToken l cfg now' userId em = Some t"
  by (auto simp: generateRefreshToken_def jwt_sign_def split: if_splits option.splits)

lemma verifyRefreshToken_payload:
  "verifyRefreshToken cfg now t = Inr d \<Longrightarrow> verifyRefreshToken cfg now' t = Inr d' \<Longrightarrow> d' = d"
  by (auto simp: verifyRefreshToken_def jwt_verify_def
           split: token.splits if_splits option.splits sum.splits jwt_error.splits)

text \<open>What a successful call has read and written.\<close>

lemma refreshToken_op_InrE:
  assumes "refreshToken_op l cfg env t w = (Inr newTokens, w')"
  obtains d user saved where
    "verifyRefreshToken cfg (clock env) t = Inr d" and
    "castsToObjectId l (jwt_userId d)" and
    "lookupId (jwt_userId d) (users w') = Some saved" and
    "refreshTokens saved =
       filter (\<lambda>tok. tok \<noteq> t) (refreshTokens (user :: user_doc)) @
       [refreshToken newTokens]"
proof -
  from assms obtain d user saved us where
    v: "verifyRefreshToken cfg (clock env) t = Inr d"
    and c: "castsToObjectId l (jwt_userId d)"
    and u: "lookupId (jwt_userId d) (users w) = Some user"
    and s: "save env True (addRefreshToken (refreshToken newTokens) (removeRefreshToken t user))
              (users w) = Some (saved, us)"
    and w': "w' = w\<lparr>users := us\<rparr>"
    by (auto simp: refreshToken_op_def findById_def split: sum.splits option.splits if_splits)
  from u have mem: "user \<in> set (users w)" and id: "uid user = jwt_userId d"
    by (auto simp: lookupId_def dest!: findOne_SomeD)
  from save_SomeD [OF s]
  have us: "us = replaceById saved (users w)" and sid: "uid saved = uid user"
    and toks: "refreshTokens saved =
                 filter (\<lambda>tok. tok \<noteq> t) (refreshTokens user) @ [refreshToken newTokens]"
    by (simp_all add: addRefreshToken_def removeRefreshToken_def)
  from mem sid have "list_ex (\<lambda>v. uid v = uid saved) (users w)"
    by (auto simp: list_ex_iff)
  then have "lookupId (uid saved) (replaceById saved (users w)) = Some saved"
    by (rule lookupId_replaceById)
  with us w' sid id have f: "lookupId (jwt_userId d) (users w') = Some saved" by simp
  show thesis by (rule that [OF v c f toks])
qed

text \<open>
  When the new refresh token differs from the presented one, the presented one is gone:
  every later call with it is rejected, with the verification error if it no longer
  verifies and with \<^verbatim>\<open>Invalid refresh token\<close> otherwise.
\<close>

lemma refresh_rotation_when_token_changes:
  assumes ok: "refreshToken_op l cfg env t w = (Inr newTokens, w')"
    and fresh: "refreshToken newTokens \<noteq> t"
  shows "refreshToken_op l cfg env' t w' =
           (case verifyRefreshToken cfg (clock env') t of
              Inl e \<Rightarrow> (Inl e, w')
            | Inr _ \<Rightarrow> (Inl (AuthenticationError ''Invalid refresh token''), w'))"
proof (cases "verifyRefreshToken cfg (clock env') t")
  case (Inl e)
  then show ?thesis by (simp add: refreshToken_op_def)
next
  case (Inr d')
  from ok obtain d user saved where
    v: "verifyRefreshToken cfg (clock env) t = Inr d"
    and c: "castsToObjectId l (jwt_userId d)"
    and f: "lookupId (jwt_userId d) (users w') = Some saved"
    and toks: "refreshTokens saved =
                 filter (\<lambda>tok. tok \<noteq> t) (refreshTokens (user :: user_doc)) @
                 [refreshToken newTokens]"
    by (rule refreshToken_op_InrE)
  from v Inr have d': "d' = d" by (rule verifyRefreshToken_payload)
  from toks fresh have "\<not> hasRefreshToken t saved"
    by (auto simp: hasRefreshToken_def)
  with Inr d' c f show ?thesis by (simp add: refreshToken_op_def findById_def)
qed

text \<open>When the new refresh token is the presented one, it is still stored afterwards.\<close>

lemma refresh_same_token_stays:
  assumes ok: "refreshToken_op l cfg env t w = (Inr newTokens, w')"
    and same: "refreshToken newTokens = t"
  shows "\<exists>d saved. verifyRefreshToken cfg (clock env) t = Inr d \<and>
           lookupId (jwt_userId d) (users w') = Some saved \<and> hasRefreshToken t saved"
proof -
  from ok obtain d user saved where
    v: "verifyRefreshToken cfg (clock env) t = Inr d"
    and f: "lookupId (jwt_userId d) (users w') = Some saved"
    and toks: "refreshTokens saved =
                 filter (\<lambda>tok. tok \<noteq> t) (refreshTokens (user :: user_doc)) @
                 [refreshToken newTokens]"
    by (rule refreshToken_op_InrE)
  from toks same have "hasRefreshToken t saved" by (simp add: hasRefreshToken_def)
  with v f show ?thesis by blast
qed

text \<open>
  Claim C1: a refresh token accepted by a successful \<^verbatim>\<open>refreshToken\<close> call fails in
  every later call with \<^verbatim>\<open>Invalid refresh token\<close>, because the successful call removed
  it. The code does not keep this when the call falls into the second in which the
  presented token was signed. Below, the user logs in at 1000000 ms and receives a refresh
  token; a first call presents it at 1000400 ms, succeeds, and returns and stores the
  same string; a second call presents it again at 9000000 ms and succeeds as well.
\<close>

theorem refresh_token_reusable_within_issuing_second:
  "loginUser node_lib default_config (env_at 1000000) ''bob@example.com'' ''Secret123!''
       \<lparr>users = [bob], outbox = []\<rparr> =
     (Inr (toResponse (bob_logged_in 1000000),
           \<lparr>accessToken = bob_access, refreshToken = bob_refresh, expiresIn = Some 900\<rparr>),
      \<lparr>users = [bob_logged_in 1000000], outbox = []\<rparr>) \<and>
   refreshToken_op node_lib default_config (env_at 1000400) bob_refresh
       \<lparr>users = [bob_logged_in 1000000], outbox = []\<rparr> =
     (Inr \<lparr>accessToken = bob_access, refreshToken = bob_refresh, expiresIn = Some 900\<rparr>,
      \<lparr>users = [bob_logged_in 1000400], outbox = []\<rparr>) \<and>
   hasRefreshToken bob_refresh (bob_logged_in 1000400) \<and>
   fst (refreshToken_op node_lib default_config (env_at 9000000) bob_refresh
          \<lparr>users = [bob_logged_in 1000400], outbox = []\<rparr>) =
     Inr \<lparr>accessToken =
            Jwt \<lparr> jwt_userId = ''65f1c0ffee0123456789abcd'', jwt_email = ''bob@example.com'',
                  jwt_type = ''access'', jwt_iat = 9000, jwt_exp = Some 9900 \<rparr>
                ''default-access-secret-change-in-production'',
          refreshToken =
            Jwt \<lparr> jwt_userId = ''65f1c0ffee0123456789abcd'', jwt_email = ''bob@example.com'',
                  jwt_type = ''refresh'', jwt_iat = 9000, jwt_exp = Some 613800 \<rparr>
                ''default-refresh-secret-change-in-production'',
          expiresIn = Some 900\<rparr>"
  by (simp add: loginUser_def refreshToken_op_def evalx)

section \<open>Access tokens: round trip and presentation as a refresh token\<close>

lemma generateAccessToken_Some:
  assumes "generateAccessToken l cfg now userId em = Some t"
  shows "\<exists>e. timespan l (jwtAccessExpiresIn cfg) (clockTimestamp now) = Some e \<and>
           jwtAccessSecret cfg \<noteq> [] \<and>
           t = Jwt \<lparr> jwt_userId = userId, jwt_email = em, jwt_type = ''access'',
                     jwt_iat = clockTimestamp now, jwt_exp = Some e \<rparr> (jwtAccessSecret cfg)"
  using assms by (auto simp: generateAccessToken_def jwt_sign_def split: if_splits option.splits)

text \<open>A lifetime of one hour and a half: the token is signed, and expires 5400 seconds later.\<close>

lemma access_token_fractional_lifetime:
  "generateAccessToken node_lib (default_config\<lparr>jwtAccessExpiresIn := ''1.5h''\<rparr>) 1000000
     ''65f1c0ffee0123456789abcd'' ''bob@example.com'' =
     Some (Jwt \<lparr> jwt_userId = ''65f1c0ffee0123456789abcd'', jwt_email = ''bob@example.com'',
                 jwt_type = ''access'', jwt_iat = 1000, jwt_exp = Some 6400 \<rparr>
               ''default-access-secret-change-in-production'')"
  by (simp add: evalx)

text \<open>
  Claim C2, as the code has it. A token from \<^verbatim>\<open>generateAccessToken\<close> carries the user
  identifier and the e-mail it was made from and an expiry second \<open>e\<close>, the one the
  library makes of the configured lifetime. \<^verbatim>\<open>verifyAccessToken\<close> returns that payload
  while the clock is before \<open>e\<close> and rejects with \<^verbatim>\<open>Access token expired\<close> from
  \<open>e\<close> on. \<^verbatim>\<open>verifyRefreshToken\<close> rejects the token at every instant: with
  \<^verbatim>\<open>Invalid refresh token\<close> when the refresh secret differs from the access secret,
  since the signature check comes first; and when the two secrets are equal, with
  \<^verbatim>\<open>Refresh token expired\<close> from \<open>e\<close> on and with \<^verbatim>\<open>Invalid token type\<close>
  before.
\<close>

theorem access_token_roundtrip:
  assumes gen: "generateAccessToken l cfg now userId em = Some t"
  shows "\<exists>p e.
           t = Jwt p (jwtAccessSecret cfg) \<and>
           jwt_userId p = userId \<and> jwt_email p = em \<and> jwt_exp p = Some e \<and>
           timespan l (jwtAccessExpiresIn cfg) (clockTimestamp now) = Some e \<and>
           verifyAccessToken cfg now' t =
             (if int (clockTimestamp now') < e then Inr p
              else Inl (AuthenticationError ''Access token expired'')) \<and>
           verifyRefreshToken cfg now' t =
             Inl (AuthenticationError
                    (if jwtRefreshSecret cfg \<noteq> jwtAccessSecret cfg then ''Invalid refresh token''
                     else if e \<le> int (clockTimestamp now') then ''Refresh token expired''
                     else ''Invalid token type''))"
proof -
  from generateAccessToken_Some [OF gen] obtain e where
    e: "timespan l (jwtAccessExpiresIn cfg) (clockTimestamp now) = Some e"
    and sec: "jwtAccessSecret cfg \<noteq> []"
    and t: "t = Jwt \<lparr> jwt_userId = userId, jwt_email = em, jwt_type = ''access'',
                     jwt_iat = clockTimestamp now, jwt_exp = Some e \<rparr> (jwtAccessSecret cfg)"
    by blast
  let ?p = "\<lparr> jwt_userId = userId, jwt_email = em, jwt_type = ''access'',
             jwt_iat = clockTimestamp now, jwt_exp = Some e \<rparr>"
  have a: "verifyAccessToken cfg now' t =
             (if int (clockTimestamp now') < e then Inr ?p
              else Inl (AuthenticationError ''Access token expired''))"
    unfolding t using sec by (simp add: verifyAccessToken_def jwt_verify_def)
  have r: "verifyRefreshToken cfg now' t =
             Inl (AuthenticationError
                    (if jwtRefreshSecret cfg \<noteq> jwtAccessSecret cfg then ''Invalid refresh token''
                     else if e \<le> int (clockTimestamp now') then ''Refresh token expired''
                     else ''Invalid token type''))"
    unfolding t using sec by (simp add: verifyRefreshToken_def jwt_verify_def)
  from t e a r show ?thesis
    by (intro exI [of _ ?p] exI [of _ e]) simp
qed

text \<open>
  The default configuration, a token signed at 1000000 ms, which expires at second 1900:
  one millisecond before that second and at it, with the two default secrets and with the
  refresh secret set to the access secret.
\<close>

theorem access_token_roundtrip_witness:
  "generateAccessToken node_lib default_config 1000000 ''65f1c0ffee0123456789abcd''
     ''bob@example.com'' = Some bob_access \<and>
   (\<exists>p. bob_access = Jwt p (jwtAccessSecret default_config) \<and>
        jwt_userId p = ''65f1c0ffee0123456789abcd'' \<and> jwt_email p = ''bob@example.com'' \<and>
        verifyAccessToken default_config 1899999 bob_access = Inr p) \<and>
   verifyAccessToken default_config 1900000 bob_access =
     Inl (AuthenticationError ''Access token expired'') \<and>
   verifyRefreshToken default_config 1899999 bob_access =
     Inl (AuthenticationError ''Invalid refresh token'') \<and>
   verifyRefreshToken default_config 1900000 bob_access =
     Inl (AuthenticationError ''Invalid refresh token'') \<and>
   verifyRefreshToken (default_config\<lparr>jwtRefreshSecret := jwtAccessSecret default_config\<rparr>)
     1899999 bob_access = Inl (AuthenticationError ''Invalid token type'') \<and>
   verifyRefreshToken (default_config\<lparr>jwtRefreshSecret := jwtAccessSecret default_config\<rparr>)
     1900000 bob_access = Inl (AuthenticationError ''Refresh token expired'')"
proof -
  let ?cfg2 = "default_config\<lparr>jwtRefreshSecret := jwtAccessSecret default_config\<rparr>"
  let ?i = "''65f1c0ffee0123456789abcd''"
  have gen: "generateAccessToken node_lib default_config 1000000 ?i ''bob@example.com'' =
               Some bob_access"
    by (simp add: evalx)
  have gen2: "generateAccessToken node_lib ?cfg2 1000000 ?i ''bob@example.com'' = Some bob_access"
    by (simp add: evalx)
  have e: "timespan node_lib (jwtAccessExpiresIn default_config) (clockTimestamp 1000000) =
             Some 1900"
    by (simp add: evalx)
  have e2: "timespan node_lib (jwtAccessExpiresIn ?cfg2) (clockTimestamp 1000000) = Some 1900"
    by (simp add: evalx)
  have diff: "jwtRefreshSecret default_config \<noteq> jwtAccessSecret default_config"
    by (simp add: default_config_def)
  have same: "jwtRefreshSecret ?cfg2 = jwtAccessSecret ?cfg2" by simp
  have c1: "int (clockTimestamp 1899999) < 1900" "\<not> (1900::int) \<le> int (clockTimestamp 1899999)"
    and c2: "\<not> int (clockTimestamp 1900000) < 1900" "(1900::int) \<le> int (clockTimestamp 1900000)"
    by (simp_all add: clockTimestamp_def)
  from access_token_roundtrip [OF gen, of 1899999] e c1 diff
  have w1: "\<exists>p. bob_access = Jwt p (jwtAccessSecret default_config) \<and>
        jwt_userId p = ?i \<and> jwt_email p = ''bob@example.com'' \<and>
        verifyAccessToken default_config 1899999 bob_access = Inr p"
    and w2: "verifyRefreshToken default_config 1899999 bob_access =
               Inl (AuthenticationError ''Invalid refresh token'')"
    by auto
  from access_token_roundtrip [OF gen, of 1900000] e c2 diff
  have w3: "verifyAccessToken default_config 1900000 bob_access =
              Inl (AuthenticationError ''Access token expired'')"
    and w4: "verifyRefreshToken default_config 1900000 bob_access =
               Inl (AuthenticationError ''Invalid refresh token'')"
    by auto
  from access_token_roundtrip [OF gen2, of 1899999] e2 c1 same
  have w5: "verifyRefreshToken ?cfg2 1899999 bob_access =
              Inl (AuthenticationError ''Invalid token type'')"
    by auto
  from access_token_roundtrip [OF gen2, of 1900000] e2 c2 same
  have w6: "verifyRefreshToken ?cfg2 1900000 bob_access =
              Inl (AuthenticationError ''Refresh token expired'')"
    by auto
  from gen w1 w2 w3 w4 w5 w6 show ?thesis by blast
qed

text \<open>
  Under the default configuration, whose two secrets differ, the access token presented
  as a refresh token fails with \<^verbatim>\<open>Invalid refresh token\<close>, not with
  \<^verbatim>\<open>Invalid token type\<close>.
\<close>

theorem access_token_as_refresh_counterexample:
  "generateAccessToken node_lib default_config 1000000 ''65f1c0ffee0123456789abcd''
     ''bob@example.com'' = Some bob_access \<and>
   verifyRefreshToken default_config 1000000 bob_access =
     Inl (AuthenticationError ''Invalid refresh token'') \<and>
   verifyRefreshToken default_config 1000000 bob_access \<noteq>
     Inl (AuthenticationError ''Invalid token type'')"
  by (simp add: evalx)

section \<open>The expiry boundary\<close>

text \<open>
  At the instant a token expires, \<^verbatim>\<open>isTokenExpired\<close> answers false unless
  \<^verbatim>\<open>exp\<close> is 0, while \<^verbatim>\<open>jwt.verify\<close> already rejects the token as expired. The
  one-time-token lookups only match an expiry strictly after now.
\<close>

lemma isTokenExpired_boundary:
  "isTokenExpired (e * 1000) (Jwt (p\<lparr>jwt_exp := Some (int e)\<rparr>) k) = (e = 0)"
  by (simp add: isTokenExpired_def jwt_decode_def)

lemma jwt_verify_boundary:
  "secret \<noteq> [] \<Longrightarrow>
     jwt_verify (e * 1000) (Jwt (p\<lparr>jwt_exp := Some (int e)\<rparr>) secret) secret =
       Inl TokenExpiredError"
  by (simp add: jwt_verify_def clockTimestamp_def)

lemma lookups_need_later_expiry:
  "findByVerificationToken now tok us = Some u \<Longrightarrow>
     \<exists>e. emailVerificationExpires u = Some e \<and> now < e"
  "findByPasswordResetToken now tok us = Some u \<Longrightarrow>
     \<exists>e. passwordResetExpires u = Some e \<and> now < e"
  by (auto simp: findByVerificationToken_def findByPasswordResetToken_def dateGt_def
           dest!: findOne_SomeD split: option.splits)

text \<open>
  Claim C3: a token whose expiry instant equals now is already invalid;
  \<^verbatim>\<open>isTokenExpired\<close> reports it expired, and the lookups by verification token and by
  reset token do not match a document whose stored expiry equals now. The lookups do
  that. \<^verbatim>\<open>isTokenExpired\<close> does not: for the access token signed at 1000000 ms,
  which expires at second 1900, it answers false at 1900000 ms, the instant at which
  \<^verbatim>\<open>verifyAccessToken\<close> rejects the same token as expired; it answers true one
  second later.
\<close>

theorem isTokenExpired_false_at_expiry_instant:
  "generateAccessToken node_lib default_config 1000000 ''65f1c0ffee0123456789abcd''
     ''bob@example.com'' = Some bob_access \<and>
   isTokenExpired 1900000 bob_access = False \<and>
   verifyAccessToken default_config 1900000 bob_access =
     Inl (AuthenticationError ''Access token expired'') \<and>
   isTokenExpired 1901000 bob_access = True \<and>
   findByVerificationToken 4600000 ''5e884898da280471''
     [bob\<lparr>emailVerificationToken := Some ''5e884898da280471'',
          emailVerificationExpires := Some 4600000\<rparr>] = None \<and>
   findByPasswordResetToken 4600000 ''5e884898da280471'' [bob_resetting] = None"
  by (simp add: evalx)

section \<open>Resetting the password\<close>



text \<open>
  A new password shorter than the schema's \<^verbatim>\<open>minlength\<close> fails validation in
  \<^verbatim>\<open>save()\<close>: the call rejects with its plain error and the document keeps its
  password, its reset token and its refresh tokens.
\<close>

lemma short_password_rejected:
  assumes found: "findByPasswordResetToken (clock env) tok (users w) = Some user"
    and len: "length newPassword < 8"
  shows "resetPassword env tok newPassword w = (Inl (Error ''Failed to reset password''), w)"
  using assms
  by (simp add: resetPassword_def save_def schemaValid_def passwordValid_def
        clearRefreshTokens_def Let_def)


section \<open>Login failures\<close>

text \<open>
  The filter of the login query is cast like a stored e-mail, so an address with capital
  letters and surrounding blanks finds the document; and the comparison of the password
  sees no more than its key.
\<close>

lemma loginUser_casts_email:
  "fst (loginUser node_lib default_config (env_at 1000000) '' Bob@Example.com '' ''Secret123!''
          \<lparr>users = [bob], outbox = []\<rparr>) =
     Inr (toResponse bob,
          \<lparr>accessToken = bob_access, refreshToken = bob_refresh, expiresIn = Some 900\<rparr>)"
  by (simp add: loginUser_def evalx)

lemma comparePassword_first_72_bytes:
  assumes "72 \<le> length (utf8 s)" and "password u = BcryptHash salt (bcryptKey (s @ t))"
  shows "comparePassword (s @ t') u"
  using assms by (simp add: comparePassword_def bcryptKey_first_72_bytes)

text \<open>
  Claim C5: a login whose e-mail matches no document and a login whose e-mail matches a
  document but whose password does not compare equal both reject with the same error,
  \<^verbatim>\<open>AuthenticationError('Invalid email or password')\<close>, and leave the world as it
  was, whatever the two worlds, instants, configurations and libraries are. An e-mail
  matches a document when the document's address is the given one in lower case and
  trimmed; a password compares equal when its bcrypt key is the one of the digest.
\<close>

theorem login_failures_indistinguishable:
  assumes "findOne (byEmail (toLowerCase unknownEmail)) (users w1) = None"
    and "findOne (byEmail (toLowerCase knownEmail)) (users w2) = Some user"
    and "\<not> comparePassword wrongPassword user"
  shows "loginUser l1 cfg1 env1 unknownEmail anyPassword w1 =
           (Inl (AuthenticationError ''Invalid email or password''), w1) \<and>
         loginUser l2 cfg2 env2 knownEmail wrongPassword w2 =
           (Inl (AuthenticationError ''Invalid email or password''), w2) \<and>
         fst (loginUser l1 cfg1 env1 unknownEmail anyPassword w1) =
           fst (loginUser l2 cfg2 env2 knownEmail wrongPassword w2)"
  using assms by (simp add: loginUser_def)

text \<open>
  An unknown address, and the known one, written with capitals and blanks, with a
  password that differs from the right one in its last digit.
\<close>

theorem login_failures_indistinguishable_witness:
  "loginUser node_lib default_config (env_at 1000000) ''alice@example.com'' ''Secret123!''
       \<lparr>users = [bob], outbox = []\<rparr> =
     (Inl (AuthenticationError ''Invalid email or password''), \<lparr>users = [bob], outbox = []\<rparr>) \<and>
   loginUser node_lib default_config (env_at 2000000) '' Bob@Example.com '' ''Secret124!''
       \<lparr>users = [bob], outbox = []\<rparr> =
     (Inl (AuthenticationError ''Invalid email or password''), \<lparr>users = [bob], outbox = []\<rparr>)"
proof -
  have a: "findOne (byEmail (toLowerCase ''alice@example.com''))
             (users \<lparr>users = [bob], outbox = []\<rparr>) = None"
    by (simp add: evalx)
  have b: "findOne (byEmail (toLowerCase '' Bob@Example.com ''))
             (users \<lparr>users = [bob], outbox = []\<rparr>) = Some bob"
    by (simp add: evalx)
  have c: "\<not> comparePassword ''Secret124!'' bob"
    by (simp add: evalx bcryptKey_def utf8_def)
  from login_failures_indistinguishable [OF a b c, of node_lib default_config
         "env_at 1000000" "''Secret123!''" node_lib default_config "env_at 2000000"]
  show ?thesis by simp
qed

section \<open>Requesting a password reset\<close>

text \<open>
  Claim C6: for an e-mail that matches no document, \<^verbatim>\<open>requestPasswordReset\<close>
  resolves and leaves every document and the outbox unchanged; the world changes only
  when the e-mail matches a document, and then (the document satisfying the schema) that
  document receives the fresh token with expiry now + 1 hour and the reset mail is handed
  to the sender. An e-mail matches a document when the document's address is the given
  one in lower case and trimmed.
\<close>

theorem requestPasswordReset_unknown_email_silent:
  "(findOne (byEmail (toLowerCase em)) (users w) = None \<longrightarrow>
      requestPasswordReset env em w = (Inr (), w)) \<and>
   (snd (requestPasswordReset env em w) \<noteq> w \<longrightarrow>
      findOne (byEmail (toLowerCase em)) (users w) \<noteq> None) \<and>
   (\<forall>user. findOne (byEmail (toLowerCase em)) (users w) = Some user \<and> schemaValid user \<longrightarrow>
      (\<exists>saved.
         snd (requestPasswordReset env em w) =
           \<lparr> users = replaceById saved (users w),
             outbox = outbox w @ [PasswordResetEmail (email user) (firstName user) (randomHex env)] \<rparr> \<and>
         lookupId (uid user) (replaceById saved (users w)) = Some saved \<and>
         passwordResetToken saved = Some (randomHex env) \<and>
         passwordResetExpires saved = Some (clock env + 60 * 60 * 1000)))"
proof (intro conjI allI impI)
  assume "findOne (byEmail (toLowerCase em)) (users w) = None"
  then show "requestPasswordReset env em w = (Inr (), w)"
    by (simp add: requestPasswordReset_def)
next
  assume "snd (requestPasswordReset env em w) \<noteq> w"
  then show "findOne (byEmail (toLowerCase em)) (users w) \<noteq> None"
    by (cases "findOne (byEmail (toLowerCase em)) (users w)")
       (simp_all add: requestPasswordReset_def)
next
  fix user
  assume a: "findOne (byEmail (toLowerCase em)) (users w) = Some user \<and> schemaValid user"
  let ?m = "user\<lparr>passwordResetToken := Some (randomHex env),
                  passwordResetExpires := Some (clock env + 60 * 60 * 1000)\<rparr>"
  define saved where
    "saved = (if ?m \<noteq> user then (preSave (genSalt env) ?m)\<lparr>updatedAt := clock env\<rparr> else ?m)"
  from a have mem: "user \<in> set (users w)" by (auto dest: findOne_SomeD)
  from a have v: "schemaValid ?m" by (simp add: schemaValid_def)
  have s: "save env (?m \<noteq> user) ?m (users w) = Some (saved, replaceById saved (users w))"
    using save_loaded [OF mem _ v, of env "?m \<noteq> user"] unfolding saved_def by simp
  have fields: "uid saved = uid user" "email saved = email user"
    "firstName saved = firstName user"
    "passwordResetToken saved = Some (randomHex env)"
    "passwordResetExpires saved = Some (clock env + 60 * 60 * 1000)"
    using save_SomeD [OF s] by simp_all
  from mem have "list_ex (\<lambda>v. uid v = uid saved) (users w)"
    unfolding fields by (auto simp: list_ex_iff)
  then have "lookupId (uid saved) (replaceById saved (users w)) = Some saved"
    by (rule lookupId_replaceById)
  then have f: "lookupId (uid user) (replaceById saved (users w)) = Some saved"
    unfolding fields .
  have "requestPasswordReset env em w =
          (case sendPasswordResetEmail env (email saved) (firstName saved) (randomHex env)
                  (w\<lparr>users := replaceById saved (users w)\<rparr>) of
             (Inl emailError, w') \<Rightarrow> (Inl (Error ''Failed to request password reset''), w')
           | (Inr _, w') \<Rightarrow> (Inr (), w'))"
    using a s unfolding requestPasswordReset_def Let_def by simp
  then have r: "snd (requestPasswordReset env em w) =
           \<lparr> users = replaceById saved (users w),
             outbox = outbox w @ [PasswordResetEmail (email user) (firstName user) (randomHex env)] \<rparr>"
    unfolding fields by (simp add: sendPasswordResetEmail_def sendMail_def)
  from r f fields(4,5) show "\<exists>saved.
         snd (requestPasswordReset env em w) =
           \<lparr> users = replaceById saved (users w),
             outbox = outbox w @ [PasswordResetEmail (email user) (firstName user) (randomHex env)] \<rparr> \<and>
         lookupId (uid user) (replaceById saved (users w)) = Some saved \<and>
         passwordResetToken saved = Some (randomHex env) \<and>
         passwordResetExpires saved = Some (clock env + 60 * 60 * 1000)"
    by (intro exI [of _ saved] conjI)
qed

text \<open>
  An unknown address leaves the world as it is; the known one, written with capitals and
  a leading blank, sets the token and hands over the mail.
\<close>

theorem requestPasswordReset_unknown_email_silent_witness:
  "requestPasswordReset (env_at 1000000) ''alice@example.com'' \<lparr>users = [bob], outbox = []\<rparr> =
     (Inr (), \<lparr>users = [bob], outbox = []\<rparr>) \<and>
   snd (requestPasswordReset (env_at 1000000) '' Bob@Example.com'' \<lparr>users = [bob], outbox = []\<rparr>) =
     \<lparr> users = [bob\<lparr>passwordResetToken := Some ''9f86d081884c7d65'',
                    passwordResetExpires := Some 4600000, updatedAt := 1000000\<rparr>],
       outbox = [PasswordResetEmail ''bob@example.com'' ''Bob'' ''9f86d081884c7d65''] \<rparr>"
proof -
  let ?w = "\<lparr>users = [bob], outbox = []\<rparr>"
  have a: "findOne (byEmail (toLowerCase ''alice@example.com'')) (users ?w) = None"
    by (simp add: evalx)
  have b: "findOne (byEmail (toLowerCase '' Bob@Example.com'')) (users ?w) = Some bob"
    by (simp add: evalx)
  have v: "schemaValid bob" by (simp add: evalx)
  from requestPasswordReset_unknown_email_silent [of "''alice@example.com''" ?w "env_at 1000000"] a
  have 1: "requestPasswordReset (env_at 1000000) ''alice@example.com'' ?w = (Inr (), ?w)"
    by blast
  from requestPasswordReset_unknown_email_silent [of "'' Bob@Example.com''" ?w "env_at 1000000"] b v
  obtain saved where
    s: "snd (requestPasswordReset (env_at 1000000) '' Bob@Example.com'' ?w) =
           \<lparr> users = replaceById saved (users ?w),
             outbox = outbox ?w @ [PasswordResetEmail (email bob) (firstName bob) (randomHex (env_at 1000000))] \<rparr>"
    and f: "lookupId (uid bob) (replaceById saved (users ?w)) = Some saved"
    by blast
  have "snd (requestPasswordReset (env_at 1000000) '' Bob@Example.com'' ?w) =
     \<lparr> users = [bob\<lparr>passwordResetToken := Some ''9f86d081884c7d65'',
                    passwordResetExpires := Some 4600000, updatedAt := 1000000\<rparr>],
       outbox = [PasswordResetEmail ''bob@example.com'' ''Bob'' ''9f86d081884c7d65''] \<rparr>"
    by (simp add: requestPasswordReset_def evalx)
  with 1 show ?thesis by simp
qed

section \<open>Registration and the verification mail\<close>

lemma mailDelivers_irrelevant:
  "saveNew (env\<lparr>mailDelivers := b\<rparr>) u us = saveNew env u us"
  "newUser (env\<lparr>mailDelivers := b\<rparr>) userData = newUser env userData"
  by (simp_all add: saveNew_def newUser_def)

text \<open>The duplicate check casts its filter: the same address with blanks is a duplicate.\<close>

lemma registerUser_padded_duplicate:
  "registerUser (env_at 1000000) (alice_data\<lparr>reg_email := '' BOB@example.com ''\<rparr>)
       \<lparr>users = [bob], outbox = []\<rparr> =
     (Inl (ConflictError ''User with this email already exists''),
      \<lparr>users = [bob], outbox = []\<rparr>)"
  by (simp add: registerUser_def evalx)

text \<open>
  Claim C7: when \<^verbatim>\<open>registerUser\<close> passes the duplicate check and the new document
  is saved, a failing delivery of the verification mail does not reject the call and
  does not undo the insert: the call resolves with the created user, the document is in
  the collection, and result and collection are what they are when the mail is
  delivered.
\<close>

theorem registerUser_mail_failure_swallowed:
  assumes "findOne (byEmail (toLowerCase (reg_email userData))) (users w) = None"
    and "saveNew env (newUser env userData) (users w) = Some (user, us)"
    and "\<not> mailDelivers env"
  shows "registerUser env userData w =
           (Inr (toResponse user),
            \<lparr> users = us,
              outbox = outbox w @ [VerificationEmail (email user) (firstName user) (randomHex env)] \<rparr>) \<and>
         us = users w @ [user] \<and>
         fst (registerUser env userData w) = fst (registerUser (env\<lparr>mailDelivers := True\<rparr>) userData w) \<and>
         users (snd (registerUser env userData w)) =
           users (snd (registerUser (env\<lparr>mailDelivers := True\<rparr>) userData w))"
proof -
  from assms(2) have app: "us = users w @ [user]"
    by (auto simp: saveNew_def Let_def split: if_splits)
  have "saveNew (env\<lparr>mailDelivers := True\<rparr>) (newUser (env\<lparr>mailDelivers := True\<rparr>) userData) (users w) =
        saveNew env (newUser env userData) (users w)"
    by (simp add: mailDelivers_irrelevant)
  with assms(2) have s2: "saveNew (env\<lparr>mailDelivers := True\<rparr>) (newUser (env\<lparr>mailDelivers := True\<rparr>) userData) (users w) = Some (user, us)"
    by simp
  show ?thesis
    using assms app s2
    by (simp add: registerUser_def sendVerificationEmail_def sendMail_def)
qed

theorem registerUser_mail_failure_swallowed_witness:
  "registerUser ((env_at 1000000)\<lparr>mailDelivers := False\<rparr>) alice_data
       \<lparr>users = [bob], outbox = []\<rparr> =
     (Inr \<lparr> res_id = ''65f1c0ffee0123456789abce'', res_email = ''alice@example.com'',
            res_firstName = ''Alice'', res_lastName = ''Example'',
            res_isEmailVerified = False, res_createdAt = 1000000 \<rparr>,
      \<lparr> users =
          [bob,
           \<lparr> uid = ''65f1c0ffee0123456789abce'', email = ''alice@example.com'',
             password = BcryptHash ''salt1'' (bcryptKey ''Passw0rd!''),
             firstName = ''Alice'', lastName = ''Example'', isEmailVerified = False,
             emailVerificationToken = Some ''9f86d081884c7d65'',
             emailVerificationExpires = Some 87400000,
             passwordResetToken = None, passwordResetExpires = None,
             refreshTokens = [], createdAt = 1000000, updatedAt = 1000000 \<rparr>],
        outbox = [VerificationEmail ''alice@example.com'' ''Alice'' ''9f86d081884c7d65''] \<rparr>)"
proof -
  let ?env = "(env_at 1000000)\<lparr>mailDelivers := False\<rparr>"
  let ?w = "\<lparr>users = [bob], outbox = []\<rparr>"
  let ?alice = "\<lparr> uid = ''65f1c0ffee0123456789abce'', email = ''alice@example.com'',
             password = BcryptHash ''salt1'' (bcryptKey ''Passw0rd!''),
             firstName = ''Alice'', lastName = ''Example'', isEmailVerified = False,
             emailVerificationToken = Some ''9f86d081884c7d65'',
             emailVerificationExpires = Some 87400000,
             passwordResetToken = None, passwordResetExpires = None,
             refreshTokens = [], createdAt = 1000000, updatedAt = 1000000 \<rparr>"
  have a: "findOne (byEmail (toLowerCase (reg_email alice_data))) (users ?w) = None"
    by (simp add: evalx)
  have b: "saveNew ?env (newUser ?env alice_data) (users ?w) = Some (?alice, [bob, ?alice])"
    by (simp add: newUser_def evalx)
  have c: "\<not> mailDelivers ?env" by simp
  from registerUser_mail_failure_swallowed [OF a b c]
  show ?thesis by (simp add: toResponse_def env_at_def)
qed

section \<open>The reported lifetime of the access token\<close>

text \<open>
  \<^verbatim>\<open>generateTokens\<close> keeps the digits of the configured lifetime and multiplies by
  60. For a lifetime in minutes that is its number of seconds, as long as that number is
  below \<open>2^53\<close>.
\<close>

lemma expiresIn_tracks_minutes_only:
  assumes cfg: "jwtAccessExpiresIn cfg = ds @ ''m''" and ds: "ds \<noteq> []" "list_all isDigit ds"
    and small: "digitsValue ds * 60 < 9007199254740992"
    and gen: "generateTokens l cfg now userId em = Some r"
  shows "expiresIn r = Some (enat (digitsValue ds * 60))"
proof -
  have m: "\<not> isDigit CHR ''m''" by (simp add: isDigit_def)
  from ds(2) have "filter isDigit ds = ds" by (simp add: list_all_iff)
  with m cfg have f: "filter isDigit (jwtAccessExpiresIn cfg) = ds" by simp
  from ds(2) have tw: "takeWhile isDigit ds = ds" by (simp add: list_all_iff)
  from small have "digitsValue ds < 9007199254740992" by simp
  then have n: "toNumber (digitsValue ds) = enat (digitsValue ds)" by (rule toNumber_small)
  have "parseInt ds = Some (toNumber (digitsValue ds))"
    by (simp only: parseInt_def Let_def tw ds(1) if_False)
  with n have "product (parseInt ds) 60 = Some (toNumber (digitsValue ds * 60))"
    by (simp add: product_def)
  with small have "product (parseInt ds) 60 = Some (enat (digitsValue ds * 60))"
    by (simp add: toNumber_small)
  with gen f show ?thesis
    by (auto simp: generateTokens_def split: option.splits)
qed

text \<open>
  Claim C8: for every configured access-token lifetime, \<^verbatim>\<open>expiresIn\<close> is the number
  of seconds that lifetime denotes. The code does not keep this for a unit other than
  minutes: with the lifetime \<^verbatim>\<open>1h\<close> the signed access token expires 3600 seconds
  after it was issued (4600 against 1000), and \<^verbatim>\<open>expiresIn\<close> is 60.
\<close>

theorem expiresIn_sixty_for_one_hour:
  "generateTokens node_lib (default_config\<lparr>jwtAccessExpiresIn := ''1h''\<rparr>) 1000000
       ''65f1c0ffee0123456789abcd'' ''bob@example.com'' =
     Some \<lparr>accessToken =
             Jwt \<lparr> jwt_userId = ''65f1c0ffee0123456789abcd'', jwt_email = ''bob@example.com'',
                   jwt_type = ''access'', jwt_iat = 1000, jwt_exp = Some 4600 \<rparr>
                 ''default-access-secret-change-in-production'',
           refreshToken = bob_refresh,
           expiresIn = Some 60\<rparr>"
  by (simp add: evalx)

section \<open>The verified flag over histories\<close>

lemma map_uid_replaceById: "map uid (replaceById d us) = map uid us"
  by (induction us) auto

lemma set_replaceById_subset: "set (replaceById d us) \<subseteq> insert d (set us)"
  by (induction us) auto

lemma set_replaceById_distinct:
  "distinct (map uid us) \<Longrightarrow> u \<in> set us \<Longrightarrow> uid d = uid u \<Longrightarrow>
     set (replaceById d us) = insert d (set us - {u})"
proof (induction us)
  case Nil
  then show ?case by simp
next
  case (Cons v vs)
  show ?case
  proof (cases "uid v = uid d")
    case True
    with Cons.prems have "v = u" by (auto simp: image_iff)
    with True Cons.prems show ?thesis by (auto simp: image_iff)
  next
    case False
    with Cons.prems have "u \<in> set vs" by auto
    with Cons False show ?thesis by auto
  qed
qed

lemma save_evolves:
  assumes "save env modified u' us = Some (d, us')" and "u \<in> set us" and "uid u' = uid u"
    and "isEmailVerified u' = isEmailVerified u"
  shows "evolves b us us'"
proof -
  from save_SomeD [OF assms(1)] have "us' = replaceById d us" and "uid d = uid u'"
    and "isEmailVerified d = isEmailVerified u'"
    by simp_all
  with assms(2-4) show ?thesis by (auto intro: evolves.update)
qed

lemma save_evolves_verify:
  assumes "save env modified u' us = Some (d, us')" and "u \<in> set us" and "uid u' = uid u"
    and "isEmailVerified u'"
  shows "evolves True us us'"
proof -
  from save_SomeD [OF assms(1)] have "us' = replaceById d us" and "uid d = uid u'"
    and "isEmailVerified d = isEmailVerified u'"
    by simp_all
  with assms(2-4) show ?thesis by (auto intro: evolves.verify)
qed

lemma saveNew_evolves:
  assumes "saveNew env (newUser env userData) us = Some (d, us')"
  shows "evolves b us us'"
proof -
  from assms have "us' = us @ [d]" and "\<not> isEmailVerified d" and "uid d \<notin> uid ` set us"
    by (auto simp: saveNew_def Let_def preSave_fields newUser_def list_ex_iff split: if_splits)
  then show ?thesis by (auto intro: evolves.insert)
qed

lemma users_sendMail: "users (snd (sendMail env m w)) = users w"
  by (simp add: sendMail_def)

lemma registerUser_evolves: "evolves b (users w) (users (snd (registerUser env userData w)))"
  by (auto simp: registerUser_def sendVerificationEmail_def sendMail_def
           split: option.splits sum.splits prod.splits
           intro: evolves.same saveNew_evolves)

lemma verifyEmail_evolves: "evolves True (users w) (users (snd (verifyEmail env tok w)))"
  by (auto simp: verifyEmail_def findByVerificationToken_def Let_def
           split: option.splits
           dest!: findOne_SomeD
           intro: evolves.same save_evolves_verify)

lemma resendVerificationEmail_evolves:
  "evolves b (users w) (users (snd (resendVerificationEmail env em w)))"
  by (auto simp: resendVerificationEmail_def sendVerificationEmail_def sendMail_def Let_def
           split: option.splits sum.splits prod.splits
           dest!: findOne_SomeD
           intro: evolves.same save_evolves)

lemma loginUser_evolves: "evolves b (users w) (users (snd (loginUser l cfg env em pw w)))"
  by (auto simp: loginUser_def addRefreshToken_def
           split: option.splits
           dest!: findOne_SomeD
           intro: evolves.same save_evolves)

lemma refreshToken_evolves: "evolves b (users w) (users (snd (refreshToken_op l cfg env t w)))"
  by (auto simp: refreshToken_op_def addRefreshToken_def removeRefreshToken_def findById_def
             lookupId_def
           split: option.splits sum.splits if_splits
           dest!: findOne_SomeD
           intro: evolves.same save_evolves)

lemma logout_evolves: "evolves b (users w) (users (snd (logout l env userId t w)))"
  by (auto simp: logout_def removeRefreshToken_def findById_def lookupId_def Let_def
           split: option.splits sum.splits if_splits
           dest!: findOne_SomeD
           intro: evolves.same save_evolves)

lemma logoutAllDevices_evolves:
  "evolves b (users w) (users (snd (logoutAllDevices l env userId w)))"
  by (auto simp: logoutAllDevices_def clearRefreshTokens_def findById_def lookupId_def Let_def
           split: option.splits sum.splits if_splits
           dest!: findOne_SomeD
           intro: evolves.same save_evolves)

lemma getUserProfile_evolves: "evolves b (users w) (users (snd (getUserProfile l userId w)))"
  by (auto simp: getUserProfile_def split: option.splits sum.splits intro: evolves.same)

lemma requestPasswordReset_evolves:
  "evolves b (users w) (users (snd (requestPasswordReset env em w)))"
  by (auto simp: requestPasswordReset_def sendPasswordResetEmail_def sendMail_def Let_def
           split: option.splits sum.splits prod.splits
           dest!: findOne_SomeD
           intro: evolves.same save_evolves)

lemma resetPassword_evolves:
  "evolves b (users w) (users (snd (resetPassword env tok newPassword w)))"
  by (auto simp: resetPassword_def clearRefreshTokens_def findByPasswordResetToken_def Let_def
           split: option.splits
           dest!: findOne_SomeD
           intro: evolves.same save_evolves)

lemma step_evolves: "evolves (isVerifyEmail c) (users w) (users (step l cfg env c w))"
  by (cases c)
     (simp_all add: registerUser_evolves verifyEmail_evolves resendVerificationEmail_evolves
        loginUser_evolves refreshToken_evolves logout_evolves logoutAllDevices_evolves
        getUserProfile_evolves requestPasswordReset_evolves resetPassword_evolves)

lemma evolves_distinct:
  "evolves b us us' \<Longrightarrow> distinct (map uid us) \<Longrightarrow> distinct (map uid us')"
  by (induction rule: evolves.induct) (auto simp: map_uid_replaceById)

lemma evolves_keeps_verified:
  assumes "evolves b us us'" and "distinct (map uid us)" and "verified us i"
  shows "verified us' i"
  using assms
proof (induction rule: evolves.induct)
  case (same b us)
  then show ?case by simp
next
  case (update u us d b)
  from update.prems(2) obtain x where x: "x \<in> set us" "uid x = i" "isEmailVerified x"
    by (auto simp: verified_def list_ex_iff)
  from set_replaceById_distinct [OF update.prems(1) update.hyps(1,2)]
  have s: "set (replaceById d us) = insert d (set us - {u})" .
  show ?case
  proof (cases "x = u")
    case True
    with x update.hyps s show ?thesis by (auto simp: verified_def list_ex_iff)
  next
    case False
    with x s show ?thesis by (auto simp: verified_def list_ex_iff)
  qed
next
  case (verify u us d)
  from verify.prems(2) obtain x where x: "x \<in> set us" "uid x = i" "isEmailVerified x"
    by (auto simp: verified_def list_ex_iff)
  from set_replaceById_distinct [OF verify.prems(1) verify.hyps(1,2)]
  have s: "set (replaceById d us) = insert d (set us - {u})" .
  show ?case
  proof (cases "x = u")
    case True
    with x verify.hyps s show ?thesis by (auto simp: verified_def list_ex_iff)
  next
    case False
    with x s show ?thesis by (auto simp: verified_def list_ex_iff)
  qed
next
  case (insert d us b)
  then show ?case by (auto simp: verified_def list_ex_iff)
qed

lemma evolves_no_new_verified:
  assumes "evolves False us us'" and "verified us' i"
  shows "verified us i"
  using assms
proof (induction b \<equiv> False us us' rule: evolves.induct)
  case (same us)
  then show ?case by simp
next
  case (update u us d)
  from update.prems obtain x where x: "x \<in> set (replaceById d us)" "uid x = i" "isEmailVerified x"
    by (auto simp: verified_def list_ex_iff)
  with set_replaceById_subset [of d us] have "x = d \<or> x \<in> set us" by auto
  with x update.hyps show ?case by (auto simp: verified_def list_ex_iff)
next
  case (verify u us d)
  then show ?case by simp
next
  case (insert d us)
  then show ?case by (auto simp: verified_def list_ex_iff)
qed

lemma run_distinct_verified:
  "distinct (map uid (users w)) \<Longrightarrow> verified (users w) i \<Longrightarrow>
     distinct (map uid (users (run l cfg cs w))) \<and> verified (users (run l cfg cs w)) i"
proof (induction cs arbitrary: w)
  case Nil
  then show ?case by simp
next
  case (Cons a cs)
  obtain env c where a: "a = (env, c)" by (cases a)
  from step_evolves [of c w l cfg env] Cons.prems
  have "distinct (map uid (users (step l cfg env c w)))"
    and "verified (users (step l cfg env c w)) i"
    by (auto intro: evolves_distinct evolves_keeps_verified)
  with Cons.IH [of "step l cfg env c w"] a show ?case by simp
qed


text \<open>
  Claim C9: \<^verbatim>\<open>isEmailVerified\<close> is monotone. In a collection with distinct
  identifiers, a user that is verified stays verified through every history of calls; a
  call other than \<^verbatim>\<open>verifyEmail\<close> leaves no user verified that was not verified
  before; and a user that \<^verbatim>\<open>registerUser\<close> creates is unverified.
\<close>

theorem isEmailVerified_monotone:
  assumes "distinct (map uid (users w))"
  shows "(verified (users w) i \<longrightarrow> verified (users (run l cfg cs w)) i) \<and>
         (\<forall>env c. \<not> isVerifyEmail c \<and> verified (users (step l cfg env c w)) i \<longrightarrow>
                    verified (users w) i) \<and>
         (\<forall>env userData r w'. registerUser env userData w = (Inr r, w') \<longrightarrow>
                    \<not> res_isEmailVerified r \<and> \<not> verified (users w') (res_id r))"
proof (intro conjI allI impI)
  assume "verified (users w) i"
  with assms show "verified (users (run l cfg cs w)) i"
    using run_distinct_verified by blast
next
  fix env c
  assume a: "\<not> isVerifyEmail c \<and> verified (users (step l cfg env c w)) i"
  with step_evolves [of c w l cfg env] show "verified (users w) i"
    by (auto dest: evolves_no_new_verified)
next
  fix env userData r w'
  assume r: "registerUser env userData w = (Inr r, w')"
  then obtain d us' where s: "saveNew env (newUser env userData) (users w) = Some (d, us')"
    and rr: "r = toResponse d" and w': "users w' = us'"
    by (auto simp: registerUser_def sendVerificationEmail_def sendMail_def
             split: option.splits sum.splits prod.splits if_splits)
  from s have d: "\<not> isEmailVerified d" "us' = users w @ [d]" "uid d \<notin> uid ` set (users w)"
    by (auto simp: saveNew_def Let_def preSave_fields newUser_def list_ex_iff split: if_splits)
  from d rr show "\<not> res_isEmailVerified r" by (simp add: toResponse_def)
  from d rr w' show "\<not> verified (users w') (res_id r)"
    by (auto simp: verified_def list_ex_iff toResponse_def image_iff)
qed

text \<open>
  A verified user through a registration of somebody else, a login, a refresh, a
  password reset request and the reset itself, a resend request and a logout everywhere.
\<close>

theorem isEmailVerified_monotone_witness:
  "distinct (map uid (users \<lparr>users = [bob\<lparr>isEmailVerified := True\<rparr>], outbox = []\<rparr>)) \<and>
   verified (users \<lparr>users = [bob\<lparr>isEmailVerified := True\<rparr>], outbox = []\<rparr>)
     ''65f1c0ffee0123456789abcd'' \<and>
   verified
     (users (run node_lib default_config
        [(env_at 1000000, Register alice_data),
         (env_at 1000000, Login ''bob@example.com'' ''Secret123!''),
         (env_at 1000400, Refresh bob_refresh),
         (env_at 2000000, RequestPasswordReset ''bob@example.com''),
         (env_at 3000000, ResetPassword ''9f86d081884c7d65'' ''NewSecret456!''),
         (env_at 4000000, ResendVerification ''bob@example.com''),
         (env_at 5000000, LogoutAll ''65f1c0ffee0123456789abcd'')]
        \<lparr>users = [bob\<lparr>isEmailVerified := True\<rparr>], outbox = []\<rparr>))
     ''65f1c0ffee0123456789abcd'' \<and>
   \<not> isVerifyEmail (Login ''bob@example.com'' ''Secret123!'') \<and>
   verified (users (step node_lib default_config (env_at 1000000)
                      (Login ''bob@example.com'' ''Secret123!'')
                      \<lparr>users = [bob\<lparr>isEmailVerified := True\<rparr>], outbox = []\<rparr>))
     ''65f1c0ffee0123456789abcd'' \<and>
   (\<exists>r w'. registerUser (env_at 1000000) alice_data
               \<lparr>users = [bob\<lparr>isEmailVerified := True\<rparr>], outbox = []\<rparr> = (Inr r, w') \<and>
            \<not> res_isEmailVerified r \<and> \<not> verified (users w') (res_id r))"
proof -
  let ?w = "\<lparr>users = [bob\<lparr>isEmailVerified := True\<rparr>], outbox = []\<rparr>"
  let ?i = "''65f1c0ffee0123456789abcd''"
  let ?history =
       "[(env_at 1000000, Register alice_data),
         (env_at 1000000, Login ''bob@example.com'' ''Secret123!''),
         (env_at 1000400, Refresh bob_refresh),
         (env_at 2000000, RequestPasswordReset ''bob@example.com''),
         (env_at 3000000, ResetPassword ''9f86d081884c7d65'' ''NewSecret456!''),
         (env_at 4000000, ResendVerification ''bob@example.com''),
         (env_at 5000000, LogoutAll ''65f1c0ffee0123456789abcd'')]"
  have d: "distinct (map uid (users ?w))" by simp
  have v: "verified (users ?w) ?i" by (simp add: verified_def bob_def)
  note m = isEmailVerified_monotone [OF d, of ?i]
  from m [where l = node_lib and cfg = default_config and cs = ?history] v
  have r: "verified (users (run node_lib default_config ?history ?w)) ?i" by blast
  have n: "\<not> isVerifyEmail (Login ''bob@example.com'' ''Secret123!'')" by simp
  have l: "verified (users (step node_lib default_config (env_at 1000000)
                      (Login ''bob@example.com'' ''Secret123!'') ?w)) ?i"
    by (simp add: loginUser_def verified_def evalx)
  obtain r' w' where reg: "registerUser (env_at 1000000) alice_data ?w = (Inr r', w')"
    by (simp add: registerUser_def newUser_def evalx)
  from m [where l = node_lib and cfg = default_config and cs = "[]"] reg
  have "\<not> res_isEmailVerified r' \<and> \<not> verified (users w') (res_id r')" by blast
  with reg have e: "\<exists>r w'. registerUser (env_at 1000000) alice_data ?w = (Inr r, w') \<and>
            \<not> res_isEmailVerified r \<and> \<not> verified (users w') (res_id r)" by blast
  from d v r n l e show ?thesis by blast
qed

section \<open>A password reset request whose mail fails\<close>

text \<open>
  Claim C10: when the e-mail matches a document, the document with the new reset token
  and the expiry now + 1 hour has been saved, and the delivery of the reset mail then
  fails, \<^verbatim>\<open>requestPasswordReset\<close> rejects with its error and the save is not undone:
  the collection is the one the save left, and the stored document holds the new token
  and expiry.
\<close>

theorem requestPasswordReset_mail_failure_keeps_token:
  assumes found: "findOne (byEmail (toLowerCase em)) (users w) = Some user"
    and persisted:
      "save env (user\<lparr>passwordResetToken := Some (randomHex env),
                       passwordResetExpires := Some (clock env + 60 * 60 * 1000)\<rparr> \<noteq> user)
         (user\<lparr>passwordResetToken := Some (randomHex env),
               passwordResetExpires := Some (clock env + 60 * 60 * 1000)\<rparr>) (users w)
         = Some (saved, us)"
    and fails: "\<not> mailDelivers env"
  shows "requestPasswordReset env em w =
           (Inl (Error ''Failed to request password reset''),
            \<lparr> users = us,
              outbox = outbox w @ [PasswordResetEmail (email user) (firstName user) (randomHex env)] \<rparr>) \<and>
         lookupId (uid user) us = Some saved \<and>
         passwordResetToken saved = Some (randomHex env) \<and>
         passwordResetExpires saved = Some (clock env + 60 * 60 * 1000)"
proof -
  from found have mem: "user \<in> set (users w)" by (auto dest: findOne_SomeD)
  from save_SomeD [OF persisted]
  have us: "us = replaceById saved (users w)" and sid: "uid saved = uid user"
    and em: "email saved = email user" and fn: "firstName saved = firstName user"
    and t: "passwordResetToken saved = Some (randomHex env)"
    and e: "passwordResetExpires saved = Some (clock env + 60 * 60 * 1000)"
    by simp_all
  from mem sid have "list_ex (\<lambda>v. uid v = uid saved) (users w)"
    by (auto simp: list_ex_iff)
  then have "lookupId (uid saved) (replaceById saved (users w)) = Some saved"
    by (rule lookupId_replaceById)
  with us sid have f: "lookupId (uid user) us = Some saved" by simp
  have "requestPasswordReset env em w =
          (case sendPasswordResetEmail env (email saved) (firstName saved) (randomHex env)
                  (w\<lparr>users := us\<rparr>) of
             (Inl emailError, w') \<Rightarrow> (Inl (Error ''Failed to request password reset''), w')
           | (Inr _, w') \<Rightarrow> (Inr (), w'))"
    using found persisted unfolding requestPasswordReset_def Let_def by simp
  with fails em fn have "requestPasswordReset env em w =
           (Inl (Error ''Failed to request password reset''),
            \<lparr> users = us,
              outbox = outbox w @ [PasswordResetEmail (email user) (firstName user) (randomHex env)] \<rparr>)"
    by (simp add: sendPasswordResetEmail_def sendMail_def)
  with f t e show ?thesis by simp
qed

text \<open>The registered user asks for a reset while the mail transport is down.\<close>

theorem requestPasswordReset_mail_failure_keeps_token_witness:
  "requestPasswordReset ((env_at 1000000)\<lparr>mailDelivers := False\<rparr>) ''bob@example.com''
       \<lparr>users = [bob], outbox = []\<rparr> =
     (Inl (Error ''Failed to request password reset''),
      \<lparr> users = [bob\<lparr>passwordResetToken := Some ''9f86d081884c7d65'',
                     passwordResetExpires := Some 4600000, updatedAt := 1000000\<rparr>],
        outbox = [PasswordResetEmail ''bob@example.com'' ''Bob'' ''9f86d081884c7d65''] \<rparr>) \<and>
   lookupId ''65f1c0ffee0123456789abcd''
     [bob\<lparr>passwordResetToken := Some ''9f86d081884c7d65'',
          passwordResetExpires := Some 4600000, updatedAt := 1000000\<rparr>] =
     Some (bob\<lparr>passwordResetToken := Some ''9f86d081884c7d65'',
               passwordResetExpires := Some 4600000, updatedAt := 1000000\<rparr>)"
proof -
  let ?env = "(env_at 1000000)\<lparr>mailDelivers := False\<rparr>"
  let ?w = "\<lparr>users = [bob], outbox = []\<rparr>"
  let ?saved = "bob\<lparr>passwordResetToken := Some ''9f86d081884c7d65'',
                    passwordResetExpires := Some 4600000, updatedAt := 1000000\<rparr>"
  have b: "findOne (byEmail (toLowerCase ''bob@example.com'')) (users ?w) = Some bob"
    by (simp add: evalx)
  have p: "save ?env (bob\<lparr>passwordResetToken := Some (randomHex ?env),
                          passwordResetExpires := Some (clock ?env + 60 * 60 * 1000)\<rparr> \<noteq> bob)
             (bob\<lparr>passwordResetToken := Some (randomHex ?env),
                  passwordResetExpires := Some (clock ?env + 60 * 60 * 1000)\<rparr>) (users ?w)
         = Some (?saved, [?saved])"
    by (simp add: evalx)
  have c: "\<not> mailDelivers ?env" by simp
  from requestPasswordReset_mail_failure_keeps_token [OF b p c]
  show ?thesis by (simp add: bob_def env_at_def lookupId_def findOne_def)
qed


end
